theory Spec2Isabelle
  imports Main "HOL-Library.Sublist" "HOL-Library.Multiset"
begin

section \<open>JavaScript values\<close>

text \<open>
  The client is TypeScript running on a JavaScript engine; the records it handles come
  from JSON. A number is an integer or NaN here (points, scores, millisecond time stamps
  and attempt counters; no property below depends on a fraction).
\<close>

datatype jsnum = NaN | Fin int

datatype jsval = JUndefined | JNull | JBool bool | JNum jsnum | JStr string

text \<open>Truthiness: \<open>undefined\<close>, \<open>null\<close>, \<open>false\<close>, \<open>0\<close>, \<open>NaN\<close> and \<open>""\<close> are falsy.\<close>

fun truthy :: "jsval \<Rightarrow> bool" where
  "truthy JUndefined = False"
| "truthy JNull = False"
| "truthy (JBool b) = b"
| "truthy (JNum NaN) = False"
| "truthy (JNum (Fin n)) = (n \<noteq> 0)"
| "truthy (JStr s) = (s \<noteq> [])"

text \<open>\<open>a || b\<close>.\<close>

definition js_or :: "jsval \<Rightarrow> jsval \<Rightarrow> jsval" where
  "js_or a b = (if truthy a then a else b)"

text \<open>Arithmetic and comparison of numbers: NaN is absorbing and compares false.\<close>

fun js_sub :: "jsnum \<Rightarrow> jsnum \<Rightarrow> jsnum" where
  "js_sub (Fin a) (Fin b) = Fin (a - b)"
| "js_sub _ _ = NaN"

fun js_lt :: "jsnum \<Rightarrow> jsnum \<Rightarrow> bool" where
  "js_lt (Fin a) (Fin b) = (a < b)"
| "js_lt _ _ = False"

fun js_isNaN :: "jsnum \<Rightarrow> bool" where
  "js_isNaN NaN = True"
| "js_isNaN (Fin _) = False"

section \<open>The retry helper (services/points-api.ts: withRetry)\<close>

text \<open>
  The operation \<open>fn\<close> is a promise-returning function with effects: it takes the state of
  the world and returns either the value it resolves with (\<open>Inr\<close>) or the error it rejects
  with (\<open>Inl\<close>), and the new state. \<open>lastError\<close> starts out \<open>undefined\<close> (\<open>None\<close>).
  A run records what the caller can observe: the result (a thrown \<open>lastError\<close> or the
  returned value), how often \<open>fn\<close> was invoked, the timeouts awaited in order, and the
  state left behind. \<open>maxRetries\<close> and \<open>delay\<close> are integers; the loop counter \<open>attempt\<close>
  starts at 1.
\<close>

record ('e, 'a, 's) run =
  outcome :: "'e option + 'a"
  calls :: nat
  waits :: "int list"
  final :: 's

function withRetry_loop ::
  "('s \<Rightarrow> ('e + 'a) \<times> 's) \<Rightarrow> int \<Rightarrow> int \<Rightarrow> int \<Rightarrow> 'e option \<Rightarrow> 's \<Rightarrow> nat \<Rightarrow> int list
     \<Rightarrow> ('e, 'a, 's) run" where
  "withRetry_loop fn maxRetries delay attempt lastError s n ws =
     (if attempt \<le> maxRetries then
        (case fn s of
           (Inr v, s') \<Rightarrow> \<lparr>outcome = Inr v, calls = Suc n, waits = ws, final = s'\<rparr>
         | (Inl error, s') \<Rightarrow>
             withRetry_loop fn maxRetries delay (attempt + 1) (Some error) s' (Suc n)
               (if attempt < maxRetries then ws @ [delay * 2 ^ nat (attempt - 1)] else ws))
      else \<lparr>outcome = Inl lastError, calls = n, waits = ws, final = s\<rparr>)"
  by pat_completeness auto
termination
  by (relation "measure (\<lambda>(fn, maxRetries, delay, attempt, lastError, s, n, ws).
        nat (maxRetries + 1 - attempt))") auto

declare withRetry_loop.simps [simp del]

definition withRetry ::
  "('s \<Rightarrow> ('e + 'a) \<times> 's) \<Rightarrow> int \<Rightarrow> int \<Rightarrow> 's \<Rightarrow> ('e, 'a, 's) run" where
  "withRetry fn maxRetries delay s = withRetry_loop fn maxRetries delay 1 None s 0 []"

text \<open>The state before the \<open>i\<close>-th invocation (counted from 0) and what that invocation does.\<close>

fun after :: "('s \<Rightarrow> ('e + 'a) \<times> 's) \<Rightarrow> 's \<Rightarrow> nat \<Rightarrow> 's" where
  "after fn s 0 = s"
| "after fn s (Suc i) = after fn (snd (fn s)) i"

definition outcome_at :: "('s \<Rightarrow> ('e + 'a) \<times> 's) \<Rightarrow> 's \<Rightarrow> nat \<Rightarrow> 'e + 'a" where
  "outcome_at fn s i = fst (fn (after fn s i))"

text \<open>
  An operation that fails exactly \<open>k\<close> times and then succeeds with \<open>v\<close>, started in
  state \<open>s\<close>.
\<close>

definition fails_then_succeeds ::
  "('s \<Rightarrow> ('e + 'a) \<times> 's) \<Rightarrow> 's \<Rightarrow> nat \<Rightarrow> 'a \<Rightarrow> bool" where
  "fails_then_succeeds fn s k v \<longleftrightarrow>
     list_all (\<lambda>i. isl (outcome_at fn s i)) [0..<k] \<and> outcome_at fn s k = Inr v"

text \<open>The backoff schedule: \<open>delay * 2^(attempt - 1)\<close> after attempts \<open>1 .. m\<close>.\<close>

definition backoff :: "int \<Rightarrow> nat \<Rightarrow> int list" where
  "backoff delay m = map (\<lambda>i. delay * 2 ^ i) [0..<m]"

text \<open>
  A sample operation: its state counts the invocations so far; the first \<open>k\<close> of them
  reject with their own number, every later one resolves with \<open>v\<close>.
\<close>

definition flaky :: "nat \<Rightarrow> 'a \<Rightarrow> nat \<Rightarrow> (nat + 'a) \<times> nat" where
  "flaky k v c = (if c < k then Inl c else Inr v, Suc c)"

section \<open>The colour scheme hook (services/dashboard.ts: useColorScheme)\<close>

datatype ColorSchemeName = light | dark

text \<open>\<open>nativeUseColorScheme()\<close> yields \<open>'light'\<close>, \<open>'dark'\<close>, or \<open>null\<close>/\<open>undefined\<close> (\<open>None\<close>).\<close>

definition useColorScheme :: "ColorSchemeName option \<Rightarrow> ColorSchemeName" where
  "useColorScheme native =
     (let colorScheme = (case native of None \<Rightarrow> light | Some c \<Rightarrow> c) in light)"

section \<open>The activities cache (services/points-api.ts: saveToCache, getFromCache)\<close>

definition CACHE_KEY :: string where
  "CACHE_KEY = ''activities_cache''"

definition CACHE_EXPIRY :: int where
  "CACHE_EXPIRY = 2 * 60 * 1000"

text \<open>
  What is written under the key is \<open>{timestamp, data}\<close> as JSON text. The payload type
  \<open>'a\<close> stands for the activity list. \<open>AsyncStorage\<close> is a map from keys to text.
  \<open>JSON.stringify\<close> and \<open>JSON.parse\<close> are the engine's, so they are parameters:
  \<open>parse\<close> answers \<open>None\<close> where \<open>JSON.parse\<close> throws or yields \<open>null\<close> (reading
  \<open>parsed.timestamp\<close> throws then); otherwise it gives the numeric value of
  \<open>parsed.timestamp\<close> (NaN when it is missing) and \<open>parsed.data\<close>. Writing is taken to
  succeed; a failure of \<open>setItem\<close> is caught and leaves the store as it was.
\<close>

record 'a cache_entry =
  timestamp :: jsnum
  data :: 'a

type_synonym storage = "string \<rightharpoonup> string"

definition saveToCache ::
  "('a cache_entry \<Rightarrow> string) \<Rightarrow> int \<Rightarrow> storage \<Rightarrow> 'a \<Rightarrow> storage" where
  "saveToCache stringify now store d =
     store(CACHE_KEY \<mapsto> stringify \<lparr>timestamp = Fin now, data = d\<rparr>)"

text \<open>\<open>None\<close> is the \<open>null\<close> that signals a miss. Every exception is caught and answered with it.\<close>

definition getFromCache ::
  "(string \<Rightarrow> 'a cache_entry option) \<Rightarrow> int \<Rightarrow> storage \<Rightarrow> 'a option" where
  "getFromCache parse now store =
     (case store CACHE_KEY of
        None \<Rightarrow> None
      | Some cachedData \<Rightarrow>
          if cachedData = [] then None
          else (case parse cachedData of
                  None \<Rightarrow> None
                | Some parsed \<Rightarrow>
                    if js_lt (js_sub (Fin now) (timestamp parsed)) (Fin (CACHE_EXPIRY div 2))
                    then Some (data parsed)
                    else None))"

section \<open>The points API (services/points-api.ts)\<close>

text \<open>
  JSON as it arrives from the server. \<open>fetch\<close> either rejects (network failure) or
  resolves with a response, whatever its status; \<open>response.json()\<close> rejects when the body is
  not JSON (\<open>None\<close>) and resolves with the parsed value otherwise.
\<close>

datatype json =
  JsNull | JsBool bool | JsNum int | JsStr string | JsArr "json list" | JsObj "(string \<times> json) list"

datatype http_result = NetworkFailure | Response (status: int) (body: "json option")

datatype js_error = NetworkError | SyntaxError | TypeError

definition json_of :: "http_result \<Rightarrow> js_error + json" where
  "json_of r =
     (case r of
        NetworkFailure \<Rightarrow> Inl NetworkError
      | Response st b \<Rightarrow> (case b of None \<Rightarrow> Inl SyntaxError | Some data' \<Rightarrow> Inr data'))"

text \<open>
  \<open>data.name\<close> for one of the names read below (\<open>total_points\<close>, \<open>rewards\<close>): a TypeError
  on \<open>null\<close>, the member of an object (the last one of that name, as \<open>JSON.parse\<close> keeps
  it) and \<open>undefined\<close> (\<open>None\<close>) on everything else.
\<close>

fun member :: "json \<Rightarrow> string \<Rightarrow> js_error + json option" where
  "member JsNull name = Inl TypeError"
| "member (JsObj kvs) name = Inr (map_of (rev kvs) name)"
| "member _ name = Inr None"

fun isArray :: "json option \<Rightarrow> bool" where
  "isArray (Some (JsArr _)) = True"
| "isArray _ = False"

definition getTotalPoints :: "http_result \<Rightarrow> js_error + json option" where
  "getTotalPoints r =
     (case (case json_of r of Inl error \<Rightarrow> Inl error | Inr data' \<Rightarrow> member data' ''total_points'') of
        Inl error \<Rightarrow> Inr (Some (JsNum 1250))
      | Inr total_points \<Rightarrow> Inr total_points)"

definition purchaseReward :: "http_result \<Rightarrow> js_error + json" where
  "purchaseReward r =
     (case json_of r of
        Inl error \<Rightarrow> Inl error
      | Inr result \<Rightarrow> Inr result)"

definition mock_rewards :: json where
  "mock_rewards = JsArr
     [JsObj [(''id'', JsNum 1), (''name'', JsStr ''Netflix movie night''),
             (''points_cost'', JsNum 300),
             (''description'', JsStr ''Two hours of Netflix with snacks'')],
      JsObj [(''id'', JsNum 2), (''name'', JsStr ''Sleep in''),
             (''points_cost'', JsNum 500),
             (''description'', JsStr ''Sleep in an extra hour on a weekday'')],
      JsObj [(''id'', JsNum 3), (''name'', JsStr ''Restaurant dinner''),
             (''points_cost'', JsNum 1000),
             (''description'', JsStr ''Dinner at a restaurant of your choice'')],
      JsObj [(''id'', JsNum 4), (''name'', JsStr ''Video game session''),
             (''points_cost'', JsNum 200),
             (''description'', JsStr ''One hour of guilt-free gaming'')]]"

definition getAvailableRewards :: "http_result \<Rightarrow> js_error + json option" where
  "getAvailableRewards r =
     (case (case json_of r of
              Inl error \<Rightarrow> Inl error
            | Inr data' \<Rightarrow>
                (case member data' ''rewards'' of
                   Inl error \<Rightarrow> Inl error
                 | Inr rewards \<Rightarrow> if isArray rewards then Inr rewards else Inr (Some mock_rewards))) of
        Inl error \<Rightarrow> Inr (Some mock_rewards)
      | Inr rewards \<Rightarrow> Inr rewards)"

section \<open>Built-ins of the engine\<close>

text \<open>
  What the screens take from the JavaScript engine and its locale is a parameter of the
  model: how a string is read as a date (\<open>Date.parse\<close>, NaN for an invalid date), the end
  of a day in the local time zone (\<open>setHours(23, 59, 59, 999)\<close>), \<open>toLowerCase\<close>,
  \<open>trim\<close> (which strips the white space of Unicode), \<open>localeCompare\<close>, how a string is
  read as a number and a number written as a string, and \<open>toLocaleDateString\<close> (\<open>None\<close>
  where it throws). Every theorem below holds for every such host.
\<close>

record host =
  parseDate :: "string \<Rightarrow> jsnum"
  endOfDay :: "int \<Rightarrow> int"
  toLowerCase :: "string \<Rightarrow> string"
  trim :: "string \<Rightarrow> string"
  localeCompare :: "string \<Rightarrow> string \<Rightarrow> int"
  stringToNumber :: "string \<Rightarrow> jsnum"
  numberToString :: "jsnum \<Rightarrow> string"
  toLocaleDateString :: "jsnum \<Rightarrow> string option"

text \<open>\<open>Number(v)\<close> and \<open>String(v)\<close>.\<close>

fun toNumber :: "host \<Rightarrow> jsval \<Rightarrow> jsnum" where
  "toNumber h JUndefined = NaN"
| "toNumber h JNull = Fin 0"
| "toNumber h (JBool b) = Fin (if b then 1 else 0)"
| "toNumber h (JNum n) = n"
| "toNumber h (JStr s) = stringToNumber h s"

fun toString :: "host \<Rightarrow> jsval \<Rightarrow> string" where
  "toString h JUndefined = ''undefined''"
| "toString h JNull = ''null''"
| "toString h (JBool b) = (if b then ''true'' else ''false'')"
| "toString h (JNum n) = numberToString h n"
| "toString h (JStr s) = s"

text \<open>
  \<open>new Date(v).getTime()\<close>: a string is parsed, anything else is taken as a number of
  milliseconds; a time value beyond 8.64e15 ms is NaN.
\<close>

fun timeClip :: "jsnum \<Rightarrow> jsnum" where
  "timeClip NaN = NaN"
| "timeClip (Fin t) = (if \<bar>t\<bar> \<le> 8640000000000000 then Fin t else NaN)"

fun newDate :: "host \<Rightarrow> jsval \<Rightarrow> jsnum" where
  "newDate h (JStr s) = parseDate h s"
| "newDate h JUndefined = NaN"
| "newDate h v = timeClip (toNumber h v)"

text \<open>\<open>date.setHours(23, 59, 59, 999)\<close> on a time value; an invalid date stays invalid.\<close>

fun setEndOfDay :: "host \<Rightarrow> jsnum \<Rightarrow> jsnum" where
  "setEndOfDay h NaN = NaN"
| "setEndOfDay h (Fin t) = Fin (endOfDay h t)"

text \<open>String methods on code units: \<open>s.includes(sub)\<close> and \<open>s.split(',')\<close>.\<close>

fun includes_js :: "string \<Rightarrow> string \<Rightarrow> bool" where
  "includes_js [] sub = (sub = [])"
| "includes_js (c # s) sub = (prefix sub (c # s) \<or> includes_js s sub)"

fun split :: "char \<Rightarrow> string \<Rightarrow> string list" where
  "split sep [] = [[]]"
| "split sep (c # s) =
     (if c = sep then [] # split sep s
      else (case split sep s of [] \<Rightarrow> [[c]] | w # ws \<Rightarrow> (c # w) # ws))"

text \<open>
  \<open>Array.prototype.sort\<close> with a comparator: the element \<open>a\<close> goes after \<open>b\<close> when
  \<open>cmp a b > 0\<close>; a NaN answer counts as 0. The sort is stable, so for a consistent
  comparator its result is the one of this insertion sort; for an inconsistent comparator
  the language leaves the order to the engine, and this is one possible order.
\<close>

fun insert_js :: "('a \<Rightarrow> 'a \<Rightarrow> jsnum) \<Rightarrow> 'a \<Rightarrow> 'a list \<Rightarrow> 'a list" where
  "insert_js cmp a [] = [a]"
| "insert_js cmp a (b # bs) =
     (if js_lt (Fin 0) (cmp a b) then b # insert_js cmp a bs else a # b # bs)"

definition sort_js :: "('a \<Rightarrow> 'a \<Rightarrow> jsnum) \<Rightarrow> 'a list \<Rightarrow> 'a list" where
  "sort_js cmp xs = foldr (insert_js cmp) xs []"

text \<open>
  \<open>Array.prototype.filter\<close> with a callback that may throw: the first exception ends the
  traversal.
\<close>

fun filter_js :: "('a \<Rightarrow> js_error + bool) \<Rightarrow> 'a list \<Rightarrow> js_error + 'a list" where
  "filter_js p [] = Inr []"
| "filter_js p (a # as) =
     (case p a of
        Inl e \<Rightarrow> Inl e
      | Inr keep \<Rightarrow>
          (case filter_js p as of
             Inl e \<Rightarrow> Inl e
           | Inr bs \<Rightarrow> Inr (if keep then a # bs else bs)))"

section \<open>Activities (app/(tabs)/logging.tsx)\<close>

text \<open>
  An activity is a JSON object whose members are read by name; a missing member reads as
  \<open>undefined\<close>.
\<close>

type_synonym obj = "string \<rightharpoonup> jsval"

definition get :: "obj \<Rightarrow> string \<Rightarrow> jsval" where
  "get item k = (case item k of None \<Rightarrow> JUndefined | Some v \<Rightarrow> v)"

subsection \<open>Normalization in loadActivities\<close>

text \<open>
  The object literal lists nine members and then spreads \<open>...item\<close>, which overwrites
  every member that \<open>item\<close> has itself.
\<close>

definition normalizeItem :: "obj \<Rightarrow> obj" where
  "normalizeItem item =
     [''Activity'' \<mapsto> js_or (get item ''Activity'') (get item ''activity''),
      ''Category'' \<mapsto> js_or (get item ''Category'') (get item ''category''),
      ''Date'' \<mapsto> js_or (get item ''Date'') (get item ''date''),
      ''Start_Time'' \<mapsto> js_or (get item ''Start_Time'') (get item ''start_time''),
      ''End_Time'' \<mapsto> js_or (get item ''End_Time'') (get item ''end_time''),
      ''Notes'' \<mapsto> js_or (get item ''Notes'') (get item ''notes''),
      ''Points'' \<mapsto> js_or (get item ''Points'') (get item ''points''),
      ''Tags'' \<mapsto> js_or (get item ''Tags'') (get item ''tags''),
      ''activity_id'' \<mapsto> get item ''activity_id''] ++ item"

definition normalizedData :: "obj list \<Rightarrow> obj list" where
  "normalizedData xs = map normalizeItem xs"

text \<open>The two casing forms of the field names the screen reconciles.\<close>

definition casing_forms :: "(string \<times> string) list" where
  "casing_forms =
     [(''Activity'', ''activity''), (''Category'', ''category''), (''Date'', ''date''),
      (''Start_Time'', ''start_time''), (''End_Time'', ''end_time''), (''Notes'', ''notes''),
      (''Points'', ''points''), (''Tags'', ''tags'')]"

text \<open>The names the object literal of the normalization lists, last one first.\<close>

definition upper_names :: "string set" where
  "upper_names = {''activity_id'', ''Tags'', ''Points'', ''Notes'', ''End_Time'', ''Start_Time'',
     ''Date'', ''Category'', ''Activity''}"

subsection \<open>sortActivities\<close>

definition dateOf :: "host \<Rightarrow> obj \<Rightarrow> jsnum" where
  "dateOf h a = (if truthy (get a ''Date'') then newDate h (get a ''Date'') else Fin 0)"

definition startOf :: "host \<Rightarrow> obj \<Rightarrow> string" where
  "startOf h a =
     (if truthy (get a ''Start_Time'')
      then (case get a ''Start_Time'' of JStr s \<Rightarrow> s | v \<Rightarrow> toString h v)
      else [])"

definition compareActivities :: "host \<Rightarrow> obj \<Rightarrow> obj \<Rightarrow> jsnum" where
  "compareActivities h a b =
     (let dateA = dateOf h a;
          dateB = dateOf h b;
          dateComparison = js_sub dateB dateA
      in if dateComparison \<noteq> Fin 0 then dateComparison
         else let aTime = startOf h a;
                  bTime = startOf h b
              in Fin (localeCompare h aTime bTime))"

definition sortActivities :: "host \<Rightarrow> obj list \<Rightarrow> obj list" where
  "sortActivities h xs = sort_js (compareActivities h) xs"

subsection \<open>filteredActivities\<close>

record DateRange =
  startDate :: "string option"
  endDate :: "string option"

record ActivityFilters =
  categories :: "string list option"
  activities :: "string list option"
  tags :: "string list option"
  dateRange :: "DateRange option"
  minPoints :: "jsnum option"

text \<open>The initial state \<open>{}\<close> of the filters.\<close>

definition noFilters :: ActivityFilters where
  "noFilters = \<lparr>categories = None, activities = None, tags = None, dateRange = None,
                 minPoints = None\<rparr>"

text \<open>
  A filter set in which no predicate is active, by the tests of the callback: no
  categories, activities or tags are selected (the list is absent or empty), there is no
  minimum of points or it is 0, and there is no date range or it has no start date.
\<close>

definition unselected :: "string list option \<Rightarrow> bool" where
  "unselected selected = (case selected of None \<Rightarrow> True | Some ss \<Rightarrow> ss = [])"

definition nothing_active :: "ActivityFilters \<Rightarrow> bool" where
  "nothing_active F \<longleftrightarrow>
     unselected (categories F) \<and> unselected (activities F) \<and> unselected (tags F) \<and>
     (case dateRange F of
        None \<Rightarrow> True
      | Some dr \<Rightarrow> (case startDate dr of None \<Rightarrow> True | Some s \<Rightarrow> s = [])) \<and>
     (case minPoints F of None \<Rightarrow> True | Some m \<Rightarrow> \<not> truthy (JNum m))"

text \<open>The values the callback reads first, in either casing.\<close>

definition activityName :: "obj \<Rightarrow> jsval" where
  "activityName a = js_or (get a ''Activity'') (get a ''activity'')"

definition categoryName :: "obj \<Rightarrow> jsval" where
  "categoryName a = js_or (get a ''Category'') (get a ''category'')"

definition tagsValue :: "obj \<Rightarrow> jsval" where
  "tagsValue a = js_or (js_or (get a ''Tags'') (get a ''tags'')) (JStr [])"

definition notesValue :: "obj \<Rightarrow> jsval" where
  "notesValue a = js_or (js_or (get a ''Notes'') (get a ''notes'')) (JStr [])"

definition dateValue :: "obj \<Rightarrow> jsval" where
  "dateValue a = js_or (get a ''Date'') (get a ''date'')"

definition pointsValue :: "obj \<Rightarrow> jsval" where
  "pointsValue a = js_or (js_or (get a ''Points'') (get a ''points'')) (JNum (Fin 0))"

text \<open>\<open>v.toLowerCase()\<close>: a TypeError unless \<open>v\<close> is a string.\<close>

fun lower :: "host \<Rightarrow> jsval \<Rightarrow> js_error + string" where
  "lower h (JStr s) = Inr (toLowerCase h s)"
| "lower h _ = Inl TypeError"

text \<open>
  The callback is a sequence of steps; a step that throws or answers \<open>false\<close> ends it, and
  after a step that passes the next one runs.
\<close>

definition and_then :: "js_error + bool \<Rightarrow> js_error + bool \<Rightarrow> js_error + bool" where
  "and_then step rest =
     (case step of Inl e \<Rightarrow> Inl e | Inr passed \<Rightarrow> if passed then rest else Inr False)"

definition searchStep :: "host \<Rightarrow> string \<Rightarrow> obj \<Rightarrow> js_error + bool" where
  "searchStep h searchQuery a =
     (if searchQuery \<noteq> [] then
        (let searchLower = toLowerCase h searchQuery in
         case lower h (activityName a) of Inl e \<Rightarrow> Inl e | Inr nameLower \<Rightarrow>
        (case lower h (categoryName a) of Inl e \<Rightarrow> Inl e | Inr categoryLower \<Rightarrow>
        (case lower h (tagsValue a) of Inl e \<Rightarrow> Inl e | Inr tagsLower \<Rightarrow>
        (case lower h (notesValue a) of Inl e \<Rightarrow> Inl e | Inr notesLower \<Rightarrow>
           Inr (includes_js nameLower searchLower \<or> includes_js categoryLower searchLower \<or>
                includes_js tagsLower searchLower \<or> includes_js notesLower searchLower)))))
      else Inr True)"

definition categoriesStep :: "ActivityFilters \<Rightarrow> obj \<Rightarrow> bool" where
  "categoriesStep filters a =
     (case categories filters of
        None \<Rightarrow> True
      | Some cs \<Rightarrow> \<not> (cs \<noteq> [] \<and> categoryName a \<notin> set (map JStr cs)))"

definition activitiesStep :: "ActivityFilters \<Rightarrow> obj \<Rightarrow> bool" where
  "activitiesStep filters a =
     (case activities filters of
        None \<Rightarrow> True
      | Some ns \<Rightarrow> \<not> (ns \<noteq> [] \<and> activityName a \<notin> set (map JStr ns)))"

definition dateStep :: "host \<Rightarrow> ActivityFilters \<Rightarrow> obj \<Rightarrow> bool" where
  "dateStep h filters a =
     (case dateRange filters of
        None \<Rightarrow> True
      | Some dr \<Rightarrow>
          (case startDate dr of
             None \<Rightarrow> True
           | Some startText \<Rightarrow>
               if startText = [] then True
               else if \<not> truthy (dateValue a) then False
               else let activityDate = newDate h (dateValue a) in
                 if js_lt activityDate (parseDate h startText) then False
                 else (case endDate dr of
                         None \<Rightarrow> True
                       | Some endText \<Rightarrow>
                           if endText = [] then True
                           else \<not> js_lt (setEndOfDay h (parseDate h endText)) activityDate)))"

definition pointsStep :: "host \<Rightarrow> ActivityFilters \<Rightarrow> obj \<Rightarrow> bool" where
  "pointsStep h filters a =
     (case minPoints filters of
        None \<Rightarrow> True
      | Some m \<Rightarrow> \<not> (truthy (JNum m) \<and> js_lt (toNumber h (pointsValue a)) m))"

definition tagsStep :: "host \<Rightarrow> ActivityFilters \<Rightarrow> obj \<Rightarrow> js_error + bool" where
  "tagsStep h filters a =
     (case tags filters of
        None \<Rightarrow> Inr True
      | Some ts \<Rightarrow>
          if ts = [] then Inr True
          else if \<not> truthy (tagsValue a) then Inr False
          else (case tagsValue a of
                  JStr s \<Rightarrow>
                    (let activityTags = map (trim h) (split CHR '','' s)
                     in Inr (list_ex (\<lambda>filterTag. filterTag \<in> set activityTags) ts))
                | _ \<Rightarrow> Inl TypeError))"

definition keepActivity :: "host \<Rightarrow> string \<Rightarrow> ActivityFilters \<Rightarrow> obj \<Rightarrow> js_error + bool" where
  "keepActivity h searchQuery filters a =
     (if \<not> truthy (activityName a) \<or> \<not> truthy (categoryName a) then Inr False
      else and_then (searchStep h searchQuery a)
          (and_then (Inr (categoriesStep filters a))
          (and_then (Inr (activitiesStep filters a))
          (and_then (Inr (dateStep h filters a))
          (and_then (Inr (pointsStep h filters a))
                    (tagsStep h filters a))))))"

definition filteredActivities ::
  "host \<Rightarrow> obj list \<Rightarrow> string \<Rightarrow> ActivityFilters \<Rightarrow> js_error + obj list" where
  "filteredActivities h acts searchQuery filters =
     filter_js (keepActivity h searchQuery filters) acts"

section \<open>Chart data of the journal screen (app/(tabs)/logging.tsx)\<close>

record chart_point =
  point_x :: jsval
  point_y :: jsnum
  point_date :: jsval

definition formatDate :: "host \<Rightarrow> jsval \<Rightarrow> jsval" where
  "formatDate h dateString =
     (case toLocaleDateString h (newDate h dateString) of
        Some s \<Rightarrow> JStr s
      | None \<Rightarrow> dateString)"

definition compareLogDates :: "host \<Rightarrow> obj \<Rightarrow> obj \<Rightarrow> jsnum" where
  "compareLogDates h a b =
     (let dateA = newDate h (get a ''date'');
          dateB = newDate h (get b ''date'')
      in if js_isNaN dateA \<or> js_isNaN dateB then Fin 0 else js_sub dateA dateB)"

definition prepareMoodData :: "host \<Rightarrow> obj list \<Rightarrow> string \<Rightarrow> chart_point list" where
  "prepareMoodData h logs property =
     (if logs = [] then []
      else map (\<lambda>log. let v = toNumber h (get log property)
                       in \<lparr>point_x = get log ''date'',
                           point_y = (if js_isNaN v then Fin 0 else v),
                           point_date = formatDate h (get log ''date'')\<rparr>)
             (sort_js (compareLogDates h)
                (filter (\<lambda>log. let v = get log property
                                in v \<noteq> JUndefined \<and> v \<noteq> JNull \<and> \<not> js_isNaN (toNumber h v))
                   logs)))"

definition prepareSleepHoursData :: "host \<Rightarrow> obj list \<Rightarrow> chart_point list" where
  "prepareSleepHoursData h logs =
     (if logs = [] then []
      else map (\<lambda>log. let v = toNumber h (get log ''sleep_hours'')
                       in \<lparr>point_x = get log ''date'',
                           point_y = (if js_isNaN v then Fin 0 else v),
                           point_date = formatDate h (get log ''date'')\<rparr>)
             (sort_js (compareLogDates h)
                (filter (\<lambda>log. let v = get log ''sleep_hours''
                                in v \<noteq> JUndefined \<and> v \<noteq> JNull \<and> \<not> js_isNaN (toNumber h v))
                   logs)))"

definition prepareSleepMoodData :: "host \<Rightarrow> obj list \<Rightarrow> chart_point list" where
  "prepareSleepMoodData h logs =
     (if logs = [] then []
      else map (\<lambda>log. let sleepHours = toNumber h (get log ''sleep_hours'');
                           moodScore = toNumber h (get log ''mood_score'')
                       in \<lparr>point_x = JNum (if js_isNaN sleepHours then Fin 0 else sleepHours),
                           point_y = (if js_isNaN moodScore then Fin 0 else moodScore),
                           point_date = formatDate h (get log ''date'')\<rparr>)
             (filter (\<lambda>log. get log ''sleep_hours'' \<noteq> JUndefined \<and>
                             get log ''mood_score'' \<noteq> JUndefined \<and>
                             \<not> js_isNaN (toNumber h (get log ''sleep_hours'')) \<and>
                             \<not> js_isNaN (toNumber h (get log ''mood_score'')))
                logs))"

text \<open>A record whose field may be charted, and the point charted for it.\<close>

definition valid_field :: "host \<Rightarrow> string \<Rightarrow> obj \<Rightarrow> bool" where
  "valid_field h property log \<longleftrightarrow>
     get log property \<noteq> JUndefined \<and> get log property \<noteq> JNull \<and>
     \<not> js_isNaN (toNumber h (get log property))"

definition point_of :: "host \<Rightarrow> string \<Rightarrow> obj \<Rightarrow> chart_point" where
  "point_of h property log =
     \<lparr>point_x = get log ''date'', point_y = toNumber h (get log property),
      point_date = formatDate h (get log ''date'')\<rparr>"

section \<open>A host for the examples\<close>

text \<open>
  A concrete engine, used where a statement is evaluated on explicit inputs: it reads
  the ISO form \<open>YYYY-MM-DD\<close> as UTC midnight of that day and rejects every other date
  string, its local time zone is UTC, it lowers ASCII letters and trims ASCII white space,
  compares strings by code units, reads and writes integers in decimal, and prints a date
  as its day number.
\<close>

definition digit :: "char \<Rightarrow> nat option" where
  "digit c = (let n = of_char c :: nat in if 48 \<le> n \<and> n \<le> 57 then Some (n - 48) else None)"

definition decimal :: "string \<Rightarrow> nat option" where
  "decimal s =
     (if s \<noteq> [] \<and> list_all (\<lambda>c. digit c \<noteq> None) s
      then Some (foldl (\<lambda>n c. 10 * n + the (digit c)) 0 s)
      else None)"

definition days_in_month :: "nat \<Rightarrow> nat \<Rightarrow> nat" where
  "days_in_month y m =
     (if m = 2 then (if y mod 4 = 0 \<and> (y mod 100 \<noteq> 0 \<or> y mod 400 = 0) then 29 else 28)
      else if m = 4 \<or> m = 6 \<or> m = 9 \<or> m = 11 then 30
      else 31)"

text \<open>Days from 1970-01-01 to the given day of the proleptic Gregorian calendar.\<close>

definition days_from_civil :: "int \<Rightarrow> int \<Rightarrow> int \<Rightarrow> int" where
  "days_from_civil y m d =
     (let y' = (if m \<le> 2 then y - 1 else y);
          era = y' div 400;
          yoe = y' - era * 400;
          doy = (153 * (if m > 2 then m - 3 else m + 9) + 2) div 5 + d - 1;
          doe = yoe * 365 + yoe div 4 - yoe div 100 + doy
      in era * 146097 + doe - 719468)"

definition iso_date :: "string \<Rightarrow> jsnum" where
  "iso_date s =
     (if length s = 10 \<and> s ! 4 = CHR ''-'' \<and> s ! 7 = CHR ''-'' then
        (case (decimal (take 4 s), decimal (take 2 (drop 5 s)), decimal (drop 8 s)) of
           (Some y, Some m, Some d) \<Rightarrow>
             if 1 \<le> m \<and> m \<le> 12 \<and> 1 \<le> d \<and> d \<le> days_in_month y m
             then Fin (days_from_civil (int y) (int m) (int d) * 86400000)
             else NaN
         | _ \<Rightarrow> NaN)
      else NaN)"

definition utc_end_of_day :: "int \<Rightarrow> int" where
  "utc_end_of_day t = t - t mod 86400000 + 86399999"

definition ascii_lower :: "string \<Rightarrow> string" where
  "ascii_lower s =
     map (\<lambda>c. let n = of_char c :: nat in if 65 \<le> n \<and> n \<le> 90 then char_of (n + 32) else c) s"

definition whitespace :: "char \<Rightarrow> bool" where
  "whitespace c \<longleftrightarrow> c \<in> set [CHR '' '', CHR 0x09, CHR 0x0A, CHR 0x0B, CHR 0x0C, CHR 0x0D]"

definition ascii_trim :: "string \<Rightarrow> string" where
  "ascii_trim s = rev (dropWhile whitespace (rev (dropWhile whitespace s)))"

fun code_unit_compare :: "string \<Rightarrow> string \<Rightarrow> int" where
  "code_unit_compare [] [] = 0"
| "code_unit_compare [] (d # t) = - 1"
| "code_unit_compare (c # s) [] = 1"
| "code_unit_compare (c # s) (d # t) =
     (if (of_char c :: nat) < of_char d then - 1
      else if (of_char d :: nat) < of_char c then 1
      else code_unit_compare s t)"

function show_nat :: "nat \<Rightarrow> string" where
  "show_nat n =
     (if n < 10 then [char_of (48 + n)] else show_nat (n div 10) @ [char_of (48 + n mod 10)])"
  by pat_completeness auto
termination
  by (relation "measure id") auto

definition show_num :: "jsnum \<Rightarrow> string" where
  "show_num n =
     (case n of
        NaN \<Rightarrow> ''NaN''
      | Fin i \<Rightarrow> if i < 0 then CHR ''-'' # show_nat (nat (- i)) else show_nat (nat i))"

definition read_num :: "string \<Rightarrow> jsnum" where
  "read_num s =
     (let t = ascii_trim s in
      if t = [] then Fin 0
      else (case decimal t of
              Some n \<Rightarrow> Fin (int n)
            | None \<Rightarrow>
                (case t of
                   c # r \<Rightarrow>
                     if c = CHR ''-'' then (case decimal r of Some n \<Rightarrow> Fin (- int n) | None \<Rightarrow> NaN)
                     else NaN
                 | [] \<Rightarrow> NaN)))"

definition day_number :: "jsnum \<Rightarrow> string option" where
  "day_number t =
     (case t of NaN \<Rightarrow> Some ''Invalid Date'' | Fin i \<Rightarrow> Some (show_num (Fin (i div 86400000))))"

definition sample_host :: host where
  "sample_host =
     \<lparr>parseDate = iso_date, endOfDay = utc_end_of_day, toLowerCase = ascii_lower,
      trim = ascii_trim, localeCompare = code_unit_compare, stringToNumber = read_num,
      numberToString = show_num, toLocaleDateString = day_number\<rparr>"

section \<open>Notions used to state the properties\<close>

text \<open>
  A collation is consistent when \<open>localeCompare\<close> is the comparison of a total preorder:
  swapping the arguments swaps the sign, and "not after" is transitive.
\<close>

definition consistent_collation :: "host \<Rightarrow> bool" where
  "consistent_collation h \<longleftrightarrow>
     (\<forall>s t. (localeCompare h s t < 0) = (0 < localeCompare h t s)) \<and>
     (\<forall>s t u. localeCompare h s t \<le> 0 \<and> localeCompare h t u \<le> 0 \<longrightarrow> localeCompare h s u \<le> 0)"

text \<open>
  The order of the activity list: \<open>a\<close> may stand before \<open>b\<close> when its date is later, or
  the dates are the same and its start time is not after the one of \<open>b\<close>.
\<close>

definition in_order :: "host \<Rightarrow> obj \<Rightarrow> obj \<Rightarrow> bool" where
  "in_order h a b =
     (case (dateOf h a, dateOf h b) of
        (Fin ta, Fin tb) \<Rightarrow>
          tb < ta \<or> (ta = tb \<and> localeCompare h (startOf h a) (startOf h b) \<le> 0)
      | _ \<Rightarrow> False)"

text \<open>
  The fields the callback calls string methods on hold a string (or nothing), and the
  points are a number, as the type \<open>Activity\<close> declares.
\<close>

definition textual :: "jsval \<Rightarrow> bool" where
  "textual v = (case v of JStr s \<Rightarrow> True | _ \<Rightarrow> \<not> truthy v)"

definition typed_activity :: "host \<Rightarrow> obj \<Rightarrow> bool" where
  "typed_activity h a \<longleftrightarrow>
     textual (activityName a) \<and> textual (categoryName a) \<and> textual (tagsValue a) \<and>
     textual (notesValue a) \<and> \<not> js_isNaN (toNumber h (pointsValue a))"

text \<open>
  The filter dimensions, as the specification words them. The text query is satisfied
  when the name, the category, the tags or the notes contain it, case ignored. A
  multi-select dimension is satisfied when nothing is selected or the record matches at
  least one selected value. The minimum is satisfied when the points reach it.
\<close>

definition matches_query :: "host \<Rightarrow> string \<Rightarrow> obj \<Rightarrow> bool" where
  "matches_query h q a \<longleftrightarrow>
     q = [] \<or>
     list_ex (\<lambda>v. case v of JStr s \<Rightarrow> includes_js (toLowerCase h s) (toLowerCase h q) | _ \<Rightarrow> False)
       [activityName a, categoryName a, tagsValue a, notesValue a]"

definition one_of :: "string list option \<Rightarrow> jsval \<Rightarrow> bool" where
  "one_of selected v =
     (case selected of None \<Rightarrow> True | Some ss \<Rightarrow> ss = [] \<or> list_ex (\<lambda>s. v = JStr s) ss)"

definition tagsOf :: "host \<Rightarrow> obj \<Rightarrow> string list" where
  "tagsOf h a =
     (case tagsValue a of
        JStr s \<Rightarrow> if s = [] then [] else map (trim h) (split CHR '','' s)
      | _ \<Rightarrow> [])"

definition has_tag :: "host \<Rightarrow> ActivityFilters \<Rightarrow> obj \<Rightarrow> bool" where
  "has_tag h F a =
     (case tags F of None \<Rightarrow> True | Some ts \<Rightarrow> ts = [] \<or> list_ex (\<lambda>t. t \<in> set (tagsOf h a)) ts)"

definition has_points :: "host \<Rightarrow> ActivityFilters \<Rightarrow> obj \<Rightarrow> bool" where
  "has_points h F a =
     (case minPoints F of
        Some (Fin m) \<Rightarrow> m = 0 \<or> (case toNumber h (pointsValue a) of Fin p \<Rightarrow> m \<le> p | NaN \<Rightarrow> False)
      | _ \<Rightarrow> True)"

text \<open>
  A record lies in a date range when its date is not before the start date and not after
  the end of the end date, for each bound the range has.
\<close>

definition not_before :: "host \<Rightarrow> obj \<Rightarrow> string \<Rightarrow> bool" where
  "not_before h a s =
     (case (newDate h (dateValue a), parseDate h s) of (Fin t, Fin t0) \<Rightarrow> t0 \<le> t | _ \<Rightarrow> False)"

definition not_after :: "host \<Rightarrow> obj \<Rightarrow> string \<Rightarrow> bool" where
  "not_after h a e =
     (case (newDate h (dateValue a), setEndOfDay h (parseDate h e)) of
        (Fin t, Fin t1) \<Rightarrow> t \<le> t1
      | _ \<Rightarrow> False)"

definition in_dateRange :: "host \<Rightarrow> DateRange \<Rightarrow> obj \<Rightarrow> bool" where
  "in_dateRange h dr a \<longleftrightarrow>
     (case startDate dr of None \<Rightarrow> True | Some s \<Rightarrow> s = [] \<or> not_before h a s) \<and>
     (case endDate dr of None \<Rightarrow> True | Some e \<Rightarrow> e = [] \<or> not_after h a e)"

definition within_dateRange :: "host \<Rightarrow> ActivityFilters \<Rightarrow> obj \<Rightarrow> bool" where
  "within_dateRange h F a =
     (case dateRange F of None \<Rightarrow> True | Some dr \<Rightarrow> in_dateRange h dr a)"

text \<open>
  The date dimension of a range with a start date: a record it lets through has a date,
  and wherever that date and a bound of the range can both be read as dates, the record
  lies on the right side of that bound. Nothing is said of a range without a start date.
\<close>

definition date_dimension :: "host \<Rightarrow> ActivityFilters \<Rightarrow> obj \<Rightarrow> bool" where
  "date_dimension h F a =
     (case dateRange F of
        None \<Rightarrow> True
      | Some dr \<Rightarrow>
          (case startDate dr of
             None \<Rightarrow> True
           | Some s \<Rightarrow>
               s = [] \<or>
               (truthy (dateValue a) \<and>
                (\<not> js_isNaN (newDate h (dateValue a)) \<and> \<not> js_isNaN (parseDate h s) \<longrightarrow>
                   not_before h a s) \<and>
                (case endDate dr of
                   None \<Rightarrow> True
                 | Some e \<Rightarrow>
                     e = [] \<or>
                     (\<not> js_isNaN (newDate h (dateValue a)) \<and> \<not> js_isNaN (parseDate h e) \<longrightarrow>
                        not_after h a e)))))"

definition satisfies_filters :: "host \<Rightarrow> string \<Rightarrow> ActivityFilters \<Rightarrow> obj \<Rightarrow> bool" where
  "satisfies_filters h q F a \<longleftrightarrow>
     truthy (activityName a) \<and> truthy (categoryName a) \<and>
     matches_query h q a \<and>
     one_of (categories F) (categoryName a) \<and>
     one_of (activities F) (activityName a) \<and>
     has_tag h F a \<and>
     has_points h F a \<and>
     date_dimension h F a"

section \<open>Properties of the retry helper\<close>

lemma after_Suc: "after fn s (Suc i) = snd (fn (after fn s i))"
  by (induction i arbitrary: s) simp_all

lemma outcome_at_0: "outcome_at fn s 0 = fst (fn s)"
  by (simp add: outcome_at_def)

lemma outcome_at_Suc: "outcome_at fn s (Suc i) = outcome_at fn (snd (fn s)) i"
  by (simp add: outcome_at_def)

lemma backoff_shift:
  "map (\<lambda>i. delay * (2 * 2 ^ (j + i))) [0..<k] =
     map (\<lambda>i. (delay::int) * 2 ^ (j + i)) [Suc 0..<Suc k]"
proof -
  have "[Suc 0..<Suc k] = map Suc [0..<k]"
    by (simp add: map_Suc_upt)
  then show ?thesis
    by (simp add: comp_def)
qed

text \<open>
  The loop entered at attempt \<open>j + 1\<close> with \<open>k\<close> failures still ahead and enough attempts
  left: it returns the value after \<open>k + 1\<close> further invocations.
\<close>

lemma withRetry_loop_success:
  assumes "\<forall>i<k. isl (outcome_at fn s i)"
    and "outcome_at fn s k = Inr v"
    and "int j + int k + 1 \<le> maxRetries"
  shows "withRetry_loop fn maxRetries delay (int j + 1) le s n ws =
           \<lparr>outcome = Inr v, calls = n + k + 1,
            waits = ws @ map (\<lambda>i. delay * 2 ^ (j + i)) [0..<k],
            final = after fn s (Suc k)\<rparr>"
  using assms
proof (induction k arbitrary: j s n ws le)
  case 0
  then obtain s' where "fn s = (Inr v, s')"
    by (cases "fn s") (simp add: outcome_at_0)
  with 0 show ?case
    by (subst withRetry_loop.simps) simp
next
  case (Suc k)
  from Suc.prems(1) have "isl (outcome_at fn s 0)"
    by blast
  then obtain e s' where fn: "fn s = (Inl e, s')"
    by (cases "fn s"; cases "fst (fn s)") (auto simp: outcome_at_0)
  have fails: "\<forall>i<k. isl (outcome_at fn s' i)"
    using Suc.prems(1) fn by (auto simp: outcome_at_Suc dest: spec [of _ "Suc i" for i])
  have ok: "outcome_at fn s' k = Inr v"
    using Suc.prems(2) fn by (simp add: outcome_at_Suc)
  have bound: "int (Suc j) + int k + 1 \<le> maxRetries"
    using Suc.prems(3) by simp
  have step: "withRetry_loop fn maxRetries delay (int j + 1) le s n ws =
      withRetry_loop fn maxRetries delay (int (Suc j) + 1) (Some e) s' (Suc n) (ws @ [delay * 2 ^ j])"
    using Suc.prems(3) fn
    by (subst withRetry_loop.simps) (simp add: algebra_simps)
  have upt: "[0..<Suc k] = 0 # [Suc 0..<Suc k]"
    by (simp add: upt_rec)
  show ?case
    unfolding step Suc.IH [OF fails ok bound]
    by (simp add: fn backoff_shift upt del: upt_Suc)
qed


text \<open>
  The loop entered at attempt \<open>j + 1\<close> when all of the \<open>m + 1\<close> attempts that are left
  fail: it gives up after them and throws the error of the last one.
\<close>

lemma withRetry_loop_exhausted:
  assumes "\<forall>i\<le>m. isl (outcome_at fn s i)"
    and "int j + int m + 1 = maxRetries"
  shows "\<exists>e. outcome_at fn s m = Inl e \<and>
           withRetry_loop fn maxRetries delay (int j + 1) le s n ws =
             \<lparr>outcome = Inl (Some e), calls = n + m + 1,
              waits = ws @ map (\<lambda>i. delay * 2 ^ (j + i)) [0..<m],
              final = after fn s (Suc m)\<rparr>"
  using assms
proof (induction m arbitrary: j s n ws le)
  case 0
  then have "isl (outcome_at fn s 0)"
    by blast
  then obtain e s' where fn: "fn s = (Inl e, s')"
    by (cases "fn s"; cases "fst (fn s)") (auto simp: outcome_at_0)
  have last: "withRetry_loop fn maxRetries delay (int j + 1 + 1) (Some e) s' (Suc n) ws =
      \<lparr>outcome = Inl (Some e), calls = Suc n, waits = ws, final = s'\<rparr>"
    using "0.prems"(2) by (subst withRetry_loop.simps) simp
  have "withRetry_loop fn maxRetries delay (int j + 1) le s n ws =
      \<lparr>outcome = Inl (Some e), calls = Suc n, waits = ws, final = s'\<rparr>"
    using "0.prems"(2) fn last by (subst withRetry_loop.simps) simp
  with fn show ?case
    by (simp add: outcome_at_0)
next
  case (Suc m)
  from Suc.prems(1) have "isl (outcome_at fn s 0)"
    by blast
  then obtain e s' where fn: "fn s = (Inl e, s')"
    by (cases "fn s"; cases "fst (fn s)") (auto simp: outcome_at_0)
  have fails: "\<forall>i\<le>m. isl (outcome_at fn s' i)"
  proof (intro allI impI)
    fix i assume "i \<le> m"
    then have "isl (outcome_at fn s (Suc i))"
      using Suc.prems(1) by simp
    then show "isl (outcome_at fn s' i)"
      using fn by (simp add: outcome_at_Suc)
  qed
  have bound: "int (Suc j) + int m + 1 = maxRetries"
    using Suc.prems(2) by simp
  have step: "withRetry_loop fn maxRetries delay (int j + 1) le s n ws =
      withRetry_loop fn maxRetries delay (int (Suc j) + 1) (Some e) s' (Suc n) (ws @ [delay * 2 ^ j])"
    using Suc.prems(2) fn
    by (subst withRetry_loop.simps) (simp add: algebra_simps)
  have upt: "[0..<Suc m] = 0 # [Suc 0..<Suc m]"
    by (simp add: upt_rec)
  from Suc.IH [OF fails bound, of "Some e" "Suc n" "ws @ [delay * 2 ^ j]"]
  obtain e' where e': "outcome_at fn s' m = Inl e'"
    and run: "withRetry_loop fn maxRetries delay (int (Suc j) + 1) (Some e) s' (Suc n)
        (ws @ [delay * 2 ^ j]) =
      \<lparr>outcome = Inl (Some e'), calls = Suc n + m + 1,
       waits = (ws @ [delay * 2 ^ j]) @ map (\<lambda>i. delay * 2 ^ (Suc j + i)) [0..<m],
       final = after fn s' (Suc m)\<rparr>"
    by blast
  have "outcome_at fn s (Suc m) = Inl e'"
    using e' fn by (simp add: outcome_at_Suc)
  moreover have "withRetry_loop fn maxRetries delay (int j + 1) le s n ws =
      \<lparr>outcome = Inl (Some e'), calls = n + Suc m + 1,
       waits = ws @ map (\<lambda>i. delay * 2 ^ (j + i)) [0..<Suc m],
       final = after fn s (Suc (Suc m))\<rparr>"
    unfolding step run
    by (simp add: fn backoff_shift upt del: upt_Suc)
  ultimately show ?case
    by blast
qed

text \<open>
  C1 (as amended). For an operation that fails exactly \<open>k\<close> times and then succeeds with
  \<open>v\<close>: with \<open>n \<ge> k + 1\<close>, \<open>withRetry\<close> returns \<open>v\<close> after exactly \<open>k + 1\<close> invocations;
  with \<open>1 \<le> n \<le> k\<close> it invokes the operation exactly \<open>n\<close> times and throws the error of
  the \<open>n\<close>-th invocation. In both cases it has waited \<open>delay * 2^(attempt - 1)\<close> after each
  failed attempt that another attempt followed, and no other time.
\<close>

theorem withRetry_fails_then_succeeds:
  assumes "fails_then_succeeds fn s k v"
  shows "(int k + 1 \<le> n \<longrightarrow>
            withRetry fn n delay s =
              \<lparr>outcome = Inr v, calls = k + 1, waits = backoff delay k,
               final = after fn s (k + 1)\<rparr>) \<and>
         (1 \<le> n \<and> n \<le> int k \<longrightarrow>
            (\<exists>e. outcome_at fn s (nat n - 1) = Inl e \<and>
               withRetry fn n delay s =
                 \<lparr>outcome = Inl (Some e), calls = nat n, waits = backoff delay (nat n - 1),
                  final = after fn s (nat n)\<rparr>))"
proof (intro conjI impI)
  from assms have fails: "\<forall>i<k. isl (outcome_at fn s i)" and ok: "outcome_at fn s k = Inr v"
    by (simp_all add: fails_then_succeeds_def list_all_iff)
  {
    assume "int k + 1 \<le> n"
    then have "int 0 + int k + 1 \<le> n"
      by simp
    from withRetry_loop_success [OF fails ok this, of delay None 0 "[]"]
    show "withRetry fn n delay s =
        \<lparr>outcome = Inr v, calls = k + 1, waits = backoff delay k, final = after fn s (k + 1)\<rparr>"
      by (simp add: withRetry_def backoff_def)
  }
  {
    assume n: "1 \<le> n \<and> n \<le> int k"
    define m where "m = nat n - 1"
    have m: "int 0 + int m + 1 = n" "nat n = Suc m"
      using n by (auto simp: m_def)
    have "\<forall>i\<le>m. isl (outcome_at fn s i)"
      using fails n by (auto simp: m_def)
    from withRetry_loop_exhausted [OF this m(1), of delay None 0 "[]"]
    show "\<exists>e. outcome_at fn s (nat n - 1) = Inl e \<and>
        withRetry fn n delay s =
          \<lparr>outcome = Inl (Some e), calls = nat n, waits = backoff delay (nat n - 1),
           final = after fn s (nat n)\<rparr>"
      by (simp add: withRetry_def backoff_def m(2))
  }
qed

lemma flaky_after: "after (flaky k v) c i = c + i"
  by (induction i arbitrary: c) (simp_all add: flaky_def)

lemma flaky_outcome_at:
  "outcome_at (flaky k v) c i = (if c + i < k then Inl (c + i) else Inr v)"
  by (simp add: outcome_at_def flaky_after) (simp add: flaky_def)

lemma flaky_fails_then_succeeds: "fails_then_succeeds (flaky k v) 0 k v"
  by (simp add: fails_then_succeeds_def flaky_outcome_at list_all_iff)

theorem withRetry_fails_then_succeeds_witness:
  "fails_then_succeeds (flaky 2 ''ok'') 0 2 ''ok'' \<and>
   withRetry (flaky 2 ''ok'') 3 1000 0 =
     \<lparr>outcome = Inr ''ok'', calls = 3, waits = [1000, 2000], final = 3\<rparr> \<and>
   withRetry (flaky 2 ''ok'') 2 1000 0 =
     \<lparr>outcome = Inl (Some 1), calls = 2, waits = [1000], final = 2\<rparr>"
proof -
  have h: "fails_then_succeeds (flaky 2 ''ok'') 0 2 ''ok''"
    by (rule flaky_fails_then_succeeds)
  have up: "[0..<2] = [0, Suc 0]" "[0..<Suc 0] = [0]"
    by (simp_all add: upt_rec)
  have a: "withRetry (flaky 2 ''ok'') 3 1000 0 =
      \<lparr>outcome = Inr ''ok'', calls = 3, waits = [1000, 2000], final = 3\<rparr>"
    using withRetry_fails_then_succeeds [OF h, of 3 1000]
    by (simp add: backoff_def flaky_after up)
  have b: "withRetry (flaky 2 ''ok'') 2 1000 0 =
      \<lparr>outcome = Inl (Some 1), calls = 2, waits = [1000], final = 2\<rparr>"
    using withRetry_fails_then_succeeds [OF h, of 2 1000]
    by (simp add: backoff_def flaky_after flaky_outcome_at up)
  from h a b show ?thesis
    by blast
qed

text \<open>
  C1 as stated fails for a maximum below one. The operation \<open>flaky 0 v\<close> never fails
  (\<open>k = 0\<close>); with \<open>n = 0\<close> or \<open>n = -1\<close> (so \<open>n \<le> k\<close>) nothing is invoked and what is thrown
  is \<open>undefined\<close>, not an error of the operation; for \<open>n = -1\<close> the number of invocations,
  zero, is not \<open>n\<close>.
\<close>

theorem withRetry_no_last_error_counterexample:
  "fails_then_succeeds (flaky 0 ''ok'') 0 0 ''ok'' \<and>
   withRetry (flaky 0 ''ok'') 0 1000 0 =
     \<lparr>outcome = Inl None, calls = 0, waits = [], final = 0\<rparr> \<and>
   withRetry (flaky 0 ''ok'') (- 1) 1000 0 =
     \<lparr>outcome = Inl None, calls = 0, waits = [], final = 0\<rparr> \<and>
   int (calls (withRetry (flaky 0 ''ok'') (- 1) 1000 0)) \<noteq> - 1"
  by (simp add: flaky_fails_then_succeeds withRetry_def withRetry_loop.simps)

text \<open>
  C10. For every \<open>maxRetries \<le> 0\<close> the loop body never runs: the operation is not invoked,
  nothing is awaited, and the initial value of \<open>lastError\<close>, \<open>undefined\<close>, is thrown.
\<close>

theorem withRetry_nonpositive:
  "maxRetries \<le> 0 \<Longrightarrow>
     withRetry fn maxRetries delay s =
       \<lparr>outcome = Inl None, calls = 0, waits = [], final = s\<rparr>"
  by (simp add: withRetry_def withRetry_loop.simps)

theorem withRetry_nonpositive_witness:
  "(0::int) \<le> 0 \<and> (- 3::int) \<le> 0 \<and>
   withRetry (flaky 0 ''ok'') 0 1000 0 =
     \<lparr>outcome = Inl None, calls = 0, waits = [], final = 0\<rparr> \<and>
   withRetry (flaky 5 ''ok'') (- 3) 1000 0 =
     \<lparr>outcome = Inl None, calls = 0, waits = [], final = 0\<rparr>"
  using withRetry_nonpositive [of 0 "flaky 0 ''ok''" 1000 0]
    withRetry_nonpositive [of "- 3" "flaky 5 ''ok''" 1000 0]
  by simp

section \<open>Properties of the colour scheme hook\<close>

text \<open>
  C9. \<open>useColorScheme\<close> returns \<open>'light'\<close> whatever the device reports (\<open>'light'\<close>,
  \<open>'dark'\<close> or nothing).
\<close>

theorem useColorScheme_always_light: "useColorScheme native = light"
  by (simp add: useColorScheme_def)

section \<open>Properties of the activities cache\<close>

lemma getFromCache_empty_store: "store CACHE_KEY = None \<Longrightarrow> getFromCache parse now store = None"
  by (simp add: getFromCache_def)

lemma getFromCache_unparsable:
  "store CACHE_KEY = Some txt \<Longrightarrow> parse txt = None \<Longrightarrow> getFromCache parse now store = None"
  by (simp add: getFromCache_def)

lemma getFromCache_entry:
  "store CACHE_KEY = Some txt \<Longrightarrow> txt \<noteq> [] \<Longrightarrow> parse txt = Some \<lparr>timestamp = Fin t, data = d\<rparr> \<Longrightarrow>
     getFromCache parse now store = (if now - t < CACHE_EXPIRY div 2 then Some d else None)"
  by (simp add: getFromCache_def)

text \<open>
  C3. After \<open>saveToCache\<close> stored a payload at time \<open>t\<close>, a read at time \<open>now\<close> returns
  that payload unchanged exactly when the age \<open>now - t\<close> is under half of \<open>CACHE_EXPIRY\<close>,
  that is under 60000 ms; otherwise, and so for every read after the expiry of 120000 ms,
  it returns \<open>null\<close>. The text written is assumed to read back as what was written
  (\<open>JSON.parse\<close> after \<open>JSON.stringify\<close>).
\<close>

theorem getFromCache_after_saveToCache:
  assumes "stringify \<lparr>timestamp = Fin t, data = d\<rparr> \<noteq> []"
    and "parse (stringify \<lparr>timestamp = Fin t, data = d\<rparr>) = Some \<lparr>timestamp = Fin t, data = d\<rparr>"
  shows "getFromCache parse now (saveToCache stringify t store d) =
           (if now - t < CACHE_EXPIRY div 2 then Some d else None) \<and>
         CACHE_EXPIRY div 2 = 60000 \<and>
         (CACHE_EXPIRY \<le> now - t \<longrightarrow>
            getFromCache parse now (saveToCache stringify t store d) = None)"
proof -
  have "getFromCache parse now (saveToCache stringify t store d) =
      (if now - t < CACHE_EXPIRY div 2 then Some d else None)"
    using assms by (intro getFromCache_entry) (simp_all add: saveToCache_def)
  then show ?thesis
    by (simp add: CACHE_EXPIRY_def)
qed

theorem getFromCache_after_saveToCache_witness:
  "(\<lambda>e. ''{}'') \<lparr>timestamp = Fin 1000, data = [1, 2, 3 :: nat]\<rparr> \<noteq> [] \<and>
   (\<lambda>txt. Some \<lparr>timestamp = Fin 1000, data = [1, 2, 3 :: nat]\<rparr>)
       ((\<lambda>e. ''{}'') \<lparr>timestamp = Fin 1000, data = [1, 2, 3 :: nat]\<rparr>) =
     Some \<lparr>timestamp = Fin 1000, data = [1, 2, 3]\<rparr> \<and>
   getFromCache (\<lambda>txt. Some \<lparr>timestamp = Fin 1000, data = [1, 2, 3 :: nat]\<rparr>) 60999
       (saveToCache (\<lambda>e. ''{}'') 1000 Map.empty [1, 2, 3 :: nat]) = Some [1, 2, 3] \<and>
   getFromCache (\<lambda>txt. Some \<lparr>timestamp = Fin 1000, data = [1, 2, 3 :: nat]\<rparr>) 61000
       (saveToCache (\<lambda>e. ''{}'') 1000 Map.empty [1, 2, 3 :: nat]) = None \<and>
   getFromCache (\<lambda>txt. Some \<lparr>timestamp = Fin 1000, data = [1, 2, 3 :: nat]\<rparr>) 121000
       (saveToCache (\<lambda>e. ''{}'') 1000 Map.empty [1, 2, 3 :: nat]) = None"
  using getFromCache_after_saveToCache [of "\<lambda>e. ''{}''" 1000 "[1, 2, 3 :: nat]"
      "\<lambda>txt. Some \<lparr>timestamp = Fin 1000, data = [1, 2, 3 :: nat]\<rparr>" 60999 Map.empty]
    getFromCache_after_saveToCache [of "\<lambda>e. ''{}''" 1000 "[1, 2, 3 :: nat]"
      "\<lambda>txt. Some \<lparr>timestamp = Fin 1000, data = [1, 2, 3 :: nat]\<rparr>" 61000 Map.empty]
    getFromCache_after_saveToCache [of "\<lambda>e. ''{}''" 1000 "[1, 2, 3 :: nat]"
      "\<lambda>txt. Some \<lparr>timestamp = Fin 1000, data = [1, 2, 3 :: nat]\<rparr>" 121000 Map.empty]
  by (simp add: CACHE_EXPIRY_def)

section \<open>Properties of the points API\<close>

lemma getTotalPoints_never_throws: "\<exists>v. getTotalPoints r = Inr v"
  by (simp add: getTotalPoints_def split: sum.split)

lemma getAvailableRewards_never_throws: "\<exists>v. getAvailableRewards r = Inr v"
  by (simp add: getAvailableRewards_def split: sum.split)

lemma getAvailableRewards_not_array:
  assumes "\<not> (\<exists>rs. member d ''rewards'' = Inr (Some (JsArr rs)))"
  shows "getAvailableRewards (Response st (Some d)) = Inr (Some mock_rewards)"
proof (cases "member d ''rewards''")
  case (Inl e)
  then show ?thesis
    by (simp add: getAvailableRewards_def json_of_def)
next
  case (Inr rewards)
  with assms have "\<not> isArray rewards"
    by (cases rewards rule: isArray.cases) auto
  with Inr show ?thesis
    by (simp add: getAvailableRewards_def json_of_def)
qed

text \<open>
  C8 (as amended). On a network failure, on a body that is not JSON and on the body
  \<open>null\<close>, \<open>getTotalPoints\<close> returns 1250 and \<open>getAvailableRewards\<close> the mock rewards;
  \<open>getAvailableRewards\<close> returns the mock rewards too whenever the parsed body has no
  \<open>rewards\<close> array; neither ever throws. \<open>purchaseReward\<close> rethrows a network failure and
  a parse failure, and for a body that parses it returns the body, whatever the HTTP
  status.
\<close>

theorem points_api_failures:
  "getTotalPoints NetworkFailure = Inr (Some (JsNum 1250)) \<and>
   getTotalPoints (Response st None) = Inr (Some (JsNum 1250)) \<and>
   getTotalPoints (Response st (Some JsNull)) = Inr (Some (JsNum 1250)) \<and>
   (\<exists>v. getTotalPoints r = Inr v) \<and>
   getAvailableRewards NetworkFailure = Inr (Some mock_rewards) \<and>
   getAvailableRewards (Response st None) = Inr (Some mock_rewards) \<and>
   (\<not> (\<exists>rs. member d ''rewards'' = Inr (Some (JsArr rs))) \<longrightarrow>
      getAvailableRewards (Response st (Some d)) = Inr (Some mock_rewards)) \<and>
   (\<exists>v. getAvailableRewards r = Inr v) \<and>
   purchaseReward NetworkFailure = Inl NetworkError \<and>
   purchaseReward (Response st None) = Inl SyntaxError \<and>
   purchaseReward (Response st (Some d)) = Inr d"
proof -
  have "getTotalPoints NetworkFailure = Inr (Some (JsNum 1250))"
    "getTotalPoints (Response st None) = Inr (Some (JsNum 1250))"
    "getTotalPoints (Response st (Some JsNull)) = Inr (Some (JsNum 1250))"
    by (simp_all add: getTotalPoints_def json_of_def)
  moreover have "getAvailableRewards NetworkFailure = Inr (Some mock_rewards)"
    "getAvailableRewards (Response st None) = Inr (Some mock_rewards)"
    by (simp_all add: getAvailableRewards_def json_of_def)
  moreover have "purchaseReward NetworkFailure = Inl NetworkError"
    "purchaseReward (Response st None) = Inl SyntaxError"
    "purchaseReward (Response st (Some d)) = Inr d"
    by (simp_all add: purchaseReward_def json_of_def)
  ultimately show ?thesis
    using getTotalPoints_never_throws [of r] getAvailableRewards_never_throws [of r]
      getAvailableRewards_not_array [of d st]
    by blast
qed

theorem points_api_failures_witness:
  "\<not> (\<exists>rs. member (JsObj [(''error'', JsStr ''Internal Server Error'')]) ''rewards'' =
          Inr (Some (JsArr rs))) \<and>
   getAvailableRewards (Response 503 (Some (JsObj [(''error'', JsStr ''Internal Server Error'')]))) =
     Inr (Some mock_rewards) \<and>
   getTotalPoints NetworkFailure = Inr (Some (JsNum 1250)) \<and>
   getTotalPoints (Response 503 None) = Inr (Some (JsNum 1250)) \<and>
   purchaseReward NetworkFailure = Inl NetworkError \<and>
   purchaseReward (Response 503 None) = Inl SyntaxError"
  using points_api_failures [of 503 NetworkFailure "JsObj [(''error'', JsStr ''Internal Server Error'')]"]
  by simp

text \<open>
  C8 as stated fails for \<open>purchaseReward\<close> on a non-2xx status: a 500 response that
  carries a JSON error object is returned to the caller as the result, nothing is thrown.
\<close>

theorem points_api_status_counterexample:
  "purchaseReward (Response 500 (Some (JsObj [(''error'', JsStr ''Internal Server Error'')]))) =
     Inr (JsObj [(''error'', JsStr ''Internal Server Error'')])"
  by (simp add: purchaseReward_def json_of_def)

text \<open>
  \<open>getTotalPoints\<close> returns \<open>data.total_points\<close> unguarded: on a 500 response with a JSON
  error object, and on a 200 response of another shape, it returns \<open>undefined\<close>, where the
  functions next to it guard the member they read. The property above leaves this case
  open.
\<close>

lemma getTotalPoints_unguarded:
  "getTotalPoints (Response 500 (Some (JsObj [(''error'', JsStr ''Internal Server Error'')]))) = Inr None"
  "getTotalPoints (Response 200 (Some (JsObj [(''points'', JsNum 40)]))) = Inr None"
  by (simp_all add: getTotalPoints_def json_of_def)

section \<open>Properties of the normalization\<close>

lemma map_add_absorb: "dom m \<subseteq> dom r \<Longrightarrow> m ++ r = r"
proof (rule ext)
  fix k assume sub: "dom m \<subseteq> dom r"
  show "(m ++ r) k = r k"
  proof (cases "r k")
    case None
    then have "m k = None" using sub by (auto simp: dom_def)
    with None show ?thesis by (simp add: map_add_def)
  next
    case (Some v)
    then show ?thesis by (simp add: map_add_def)
  qed
qed

lemma dom_upd_Some: "dom (m(k \<mapsto> v)) = insert k (dom m)"
  by simp

lemma normalizeItem_split: "\<exists>m. normalizeItem item = m ++ item \<and> dom m = upper_names"
  unfolding normalizeItem_def upper_names_def
  apply (rule exI)
  apply (rule conjI)
   apply (rule refl)
  apply (simp only: dom_upd_Some dom_empty)
  done

lemma dom_normalizeItem: "dom (normalizeItem item) = upper_names \<union> dom item"
proof -
  obtain m where "normalizeItem item = m ++ item" "dom m = upper_names"
    using normalizeItem_split by blast
  then show ?thesis by (simp add: Un_commute)
qed

lemma normalizeItem_idem: "normalizeItem (normalizeItem item) = normalizeItem item"
proof -
  obtain m where m: "normalizeItem (normalizeItem item) = m ++ normalizeItem item"
      "dom m = upper_names"
    using normalizeItem_split by blast
  have "dom m \<subseteq> dom (normalizeItem item)"
    by (simp add: m(2) dom_normalizeItem)
  then show ?thesis
    unfolding m(1) by (rule map_add_absorb)
qed

lemma normalizeItem_keeps: "item k = Some v \<Longrightarrow> normalizeItem item k = Some v"
  by (simp add: normalizeItem_def map_add_def)

lemma get_normalizeItem_own: "k \<in> dom item \<Longrightarrow> get (normalizeItem item) k = get item k"
  by (auto simp: get_def normalizeItem_keeps)

lemma get_normalizeItem_fresh:
  assumes "item k = None"
  shows "get (normalizeItem item) k =
     get [''Activity'' \<mapsto> js_or (get item ''Activity'') (get item ''activity''),
      ''Category'' \<mapsto> js_or (get item ''Category'') (get item ''category''),
      ''Date'' \<mapsto> js_or (get item ''Date'') (get item ''date''),
      ''Start_Time'' \<mapsto> js_or (get item ''Start_Time'') (get item ''start_time''),
      ''End_Time'' \<mapsto> js_or (get item ''End_Time'') (get item ''end_time''),
      ''Notes'' \<mapsto> js_or (get item ''Notes'') (get item ''notes''),
      ''Points'' \<mapsto> js_or (get item ''Points'') (get item ''points''),
      ''Tags'' \<mapsto> js_or (get item ''Tags'') (get item ''tags''),
      ''activity_id'' \<mapsto> get item ''activity_id''] k"
  using assms by (simp only: get_def normalizeItem_def map_add_def option.case)

lemma get_absent: "item k = None \<Longrightarrow> get item k = JUndefined"
  by (simp add: get_def)

lemma js_or_undefined: "js_or JUndefined v = v"
  by (simp add: js_or_def)

lemma upper_form_fresh:
  assumes "(U, l) \<in> set casing_forms" and "item U = None"
  shows "get (normalizeItem item) U = get item l"
proof -
  from assms(1) have "(U, l) = (''Activity'', ''activity'') \<or> (U, l) = (''Category'', ''category'') \<or>
      (U, l) = (''Date'', ''date'') \<or> (U, l) = (''Start_Time'', ''start_time'') \<or>
      (U, l) = (''End_Time'', ''end_time'') \<or> (U, l) = (''Notes'', ''notes'') \<or>
      (U, l) = (''Points'', ''points'') \<or> (U, l) = (''Tags'', ''tags'')"
    by (simp add: casing_forms_def)
  then show ?thesis
    using assms(2) get_absent [of item U]
    by (elim disjE; simp add: get_normalizeItem_fresh js_or_undefined; simp add: get_def)
qed

lemma casing_upper: "(U, l) \<in> set casing_forms \<Longrightarrow> U \<in> upper_names"
  by (auto simp: casing_forms_def upper_names_def)

lemma casing_lower: "(U, l) \<in> set casing_forms \<Longrightarrow> l \<notin> upper_names"
  by (auto simp: casing_forms_def upper_names_def)

text \<open>
  Normalizing is idempotent. The normalized record has every uppercase field name; it
  holds the record's own uppercase member where the record has one, and the lowercase
  member otherwise. Every member of the record is kept as it is, and no lowercase member
  is added.
\<close>

lemma normalizeItem_idempotent_upper:
  "normalizeItem (normalizeItem item) = normalizeItem item \<and>
   list_all (\<lambda>(U, l). U \<in> dom (normalizeItem item) \<and>
      get (normalizeItem item) U = (if U \<in> dom item then get item U else get item l) \<and>
      (l \<in> dom (normalizeItem item)) = (l \<in> dom item)) casing_forms \<and>
   item \<subseteq>\<^sub>m normalizeItem item"
proof (intro conjI)
  show "normalizeItem (normalizeItem item) = normalizeItem item"
    by (rule normalizeItem_idem)
  have "U \<in> dom (normalizeItem item) \<and>
      get (normalizeItem item) U = (if U \<in> dom item then get item U else get item l) \<and>
      (l \<in> dom (normalizeItem item)) = (l \<in> dom item)"
    if "(U, l) \<in> set casing_forms" for U l
  proof (intro conjI)
    show "U \<in> dom (normalizeItem item)"
      using casing_upper [OF that] by (simp add: dom_normalizeItem)
    show "get (normalizeItem item) U = (if U \<in> dom item then get item U else get item l)"
      using upper_form_fresh [OF that, of item] get_normalizeItem_own [of U item]
      by (cases "item U") (auto simp: dom_def)
    show "(l \<in> dom (normalizeItem item)) = (l \<in> dom item)"
      using casing_lower [OF that] by (simp add: dom_normalizeItem)
  qed
  then show "list_all (\<lambda>(U, l). U \<in> dom (normalizeItem item) \<and>
      get (normalizeItem item) U = (if U \<in> dom item then get item U else get item l) \<and>
      (l \<in> dom (normalizeItem item)) = (l \<in> dom item)) casing_forms"
    unfolding list_all_iff by blast
  show "item \<subseteq>\<^sub>m normalizeItem item"
    by (auto simp: map_le_def normalizeItem_keeps)
qed

text \<open>
  C6. The claim is that the normalization is idempotent and that the normalized record
  exposes both casing forms of each field, as the comment of the code says ("Create a new
  object with both lowercase and uppercase property names"). Idempotence holds. But the
  object literal adds the uppercase names only: the normalized form of a record in the
  uppercase convention (the one the type \<open>Activity\<close> declares) has no \<open>activity\<close>, no
  \<open>category\<close> and no \<open>date\<close>.
\<close>

theorem normalizeItem_uppercase_record:
  "normalizeItem [''Activity'' \<mapsto> JStr ''Run'', ''Category'' \<mapsto> JStr ''Sport'',
      ''Date'' \<mapsto> JStr ''2024-01-31''] ''activity'' = None \<and>
   normalizeItem [''Activity'' \<mapsto> JStr ''Run'', ''Category'' \<mapsto> JStr ''Sport'',
      ''Date'' \<mapsto> JStr ''2024-01-31''] ''category'' = None \<and>
   normalizeItem [''Activity'' \<mapsto> JStr ''Run'', ''Category'' \<mapsto> JStr ''Sport'',
      ''Date'' \<mapsto> JStr ''2024-01-31''] ''date'' = None"
  by (simp add: normalizeItem_def map_add_def)

section \<open>Properties of the array sort\<close>

lemma mset_insert_js: "mset (insert_js cmp a bs) = add_mset a (mset bs)"
  by (induction bs) simp_all

lemma mset_sort_js: "mset (sort_js cmp xs) = mset xs"
  by (induction xs) (simp_all add: sort_js_def mset_insert_js)

lemma set_sort_js: "set (sort_js cmp xs) = set xs"
  using mset_sort_js [of cmp xs] by (metis set_mset_mset)


section \<open>Properties of sortActivities\<close>

lemma code_unit_compare_swap: "(code_unit_compare s t < 0) = (0 < code_unit_compare t s)"
  by (induction s t rule: code_unit_compare.induct) auto

lemma code_unit_compare_Cons:
  "code_unit_compare (c # s) (d # t) \<le> 0 \<longleftrightarrow>
     (of_char c :: nat) < of_char d \<or> ((of_char c :: nat) = of_char d \<and> code_unit_compare s t \<le> 0)"
  by (cases "(of_char c :: nat) < of_char d"; cases "(of_char d :: nat) < of_char c") auto

lemma code_unit_compare_trans:
  "code_unit_compare s t \<le> 0 \<Longrightarrow> code_unit_compare t u \<le> 0 \<Longrightarrow> code_unit_compare s u \<le> 0"
proof (induction s arbitrary: t u)
  case Nil
  then show ?case by (cases u) simp_all
next
  case (Cons c s)
  from Cons.prems(1) obtain d t' where t: "t = d # t'"
    by (cases t) simp_all
  from Cons.prems(2) t obtain e u' where u: "u = e # u'"
    by (cases u) simp_all
  from Cons.prems t u have
    cd: "(of_char c :: nat) < of_char d \<or> ((of_char c :: nat) = of_char d \<and> code_unit_compare s t' \<le> 0)"
    and de: "(of_char d :: nat) < of_char e \<or> ((of_char d :: nat) = of_char e \<and> code_unit_compare t' u' \<le> 0)"
    by (simp_all only: code_unit_compare_Cons)
  have "(of_char c :: nat) < of_char e \<or> ((of_char c :: nat) = of_char e \<and> code_unit_compare s u' \<le> 0)"
    using cd de Cons.IH [of t' u'] by linarith
  then show ?case
    unfolding u by (simp only: code_unit_compare_Cons)
qed

lemma consistent_sample_host: "consistent_collation sample_host"
  unfolding consistent_collation_def
  using code_unit_compare_swap code_unit_compare_trans
  by (auto simp: sample_host_def)

lemma compare_in_order:
  assumes "\<not> js_isNaN (dateOf h a)" and "\<not> js_isNaN (dateOf h b)"
  shows "js_lt (Fin 0) (compareActivities h a b) = (\<not> in_order h a b)"
proof -
  from assms obtain ta tb where "dateOf h a = Fin ta" "dateOf h b = Fin tb"
    by (cases "dateOf h a"; cases "dateOf h b") auto
  then show ?thesis
    by (auto simp: compareActivities_def in_order_def Let_def)
qed

lemma in_order_total:
  assumes "consistent_collation h" and "\<not> js_isNaN (dateOf h a)" and "\<not> js_isNaN (dateOf h b)"
  shows "in_order h a b \<or> in_order h b a"
proof -
  from assms obtain ta tb where d: "dateOf h a = Fin ta" "dateOf h b = Fin tb"
    by (cases "dateOf h a"; cases "dateOf h b") auto
  have "localeCompare h (startOf h a) (startOf h b) \<le> 0 \<or>
      localeCompare h (startOf h b) (startOf h a) \<le> 0"
    using assms(1) unfolding consistent_collation_def
    by (metis less_le_not_le linorder_le_cases)
  with d show ?thesis
    by (auto simp: in_order_def)
qed

lemma in_order_trans:
  assumes "consistent_collation h" and "in_order h a b" and "in_order h b c"
  shows "in_order h a c"
proof -
  from assms(2,3) obtain ta tb tc where d: "dateOf h a = Fin ta" "dateOf h b = Fin tb"
      "dateOf h c = Fin tc"
    by (cases "dateOf h a"; cases "dateOf h b"; cases "dateOf h c") (auto simp: in_order_def)
  have tr: "localeCompare h s t \<le> 0 \<Longrightarrow> localeCompare h t u \<le> 0 \<Longrightarrow> localeCompare h s u \<le> 0"
    for s t u
    using assms(1) unfolding consistent_collation_def by blast
  from assms(2,3) d show ?thesis
    by (auto simp: in_order_def intro: tr)
qed

lemma set_insert_js: "set (insert_js cmp a bs) = insert a (set bs)"
  by (induction bs) auto

lemma sorted_insert_js:
  assumes "consistent_collation h"
    and "\<not> js_isNaN (dateOf h a)"
    and "\<forall>b\<in>set bs. \<not> js_isNaN (dateOf h b)"
    and "sorted_wrt (in_order h) bs"
  shows "sorted_wrt (in_order h) (insert_js (compareActivities h) a bs)"
  using assms(3,4)
proof (induction bs)
  case Nil
  then show ?case by simp
next
  case (Cons b bs)
  show ?case
  proof (cases "in_order h a b")
    case True
    then have "\<forall>c\<in>set bs. in_order h a c"
      using Cons.prems(2) in_order_trans [OF assms(1)] by auto
    with True Cons.prems show ?thesis
      by (simp add: compare_in_order [OF assms(2)])
  next
    case False
    then have "in_order h b a"
      using in_order_total [OF assms(1,2), of b] Cons.prems(1) by auto
    with False Cons show ?thesis
      by (simp add: compare_in_order [OF assms(2)] set_insert_js)
  qed
qed

text \<open>
  C5 (as amended). For a list whose activities have a date that can be read (or none,
  which counts as time 0), and a consistent collation, \<open>sortActivities\<close> returns the same
  activities, descending by date, and those of the same date ascending by start time in
  the order of \<open>localeCompare\<close>.
\<close>

theorem sortActivities_sorted:
  assumes "consistent_collation h"
    and "list_all (\<lambda>a. \<not> js_isNaN (dateOf h a)) xs"
  shows "mset (sortActivities h xs) = mset xs \<and>
         sorted_wrt (in_order h) (sortActivities h xs)"
proof
  show "mset (sortActivities h xs) = mset xs"
    by (simp add: sortActivities_def mset_sort_js)
  show "sorted_wrt (in_order h) (sortActivities h xs)"
    using assms(2)
  proof (induction xs)
    case Nil
    then show ?case by (simp add: sortActivities_def sort_js_def)
  next
    case (Cons a xs)
    then have "sorted_wrt (in_order h) (sort_js (compareActivities h) xs)"
      by (simp add: sortActivities_def)
    moreover have "\<forall>b\<in>set (sort_js (compareActivities h) xs). \<not> js_isNaN (dateOf h b)"
      using Cons.prems by (simp add: set_sort_js list_all_iff)
    moreover have "\<not> js_isNaN (dateOf h a)"
      using Cons.prems by simp
    ultimately have "sorted_wrt (in_order h)
        (insert_js (compareActivities h) a (sort_js (compareActivities h) xs))"
      using sorted_insert_js [OF assms(1)] by blast
    then show ?case
      by (simp add: sortActivities_def sort_js_def)
  qed
qed

text \<open>The dates of the examples as the sample host reads them.\<close>

lemma iso_date_examples:
  "iso_date ''2024-01-01'' = Fin 1704067200000"
  "iso_date ''2024-01-02'' = Fin 1704153600000"
  "iso_date ''2024-01-15'' = Fin 1705276800000"
  "iso_date ''2024-01-31'' = Fin 1706659200000"
  "iso_date ''2024-06-01'' = Fin 1717200000000"
  "iso_date ''31/12/2024'' = NaN"
  "iso_date ''31/01/2024'' = NaN"
  "iso_date ''15/01/2024'' = NaN"
  by (simp_all add: iso_date_def decimal_def digit_def days_in_month_def days_from_civil_def)

theorem sortActivities_sorted_witness:
  "consistent_collation sample_host \<and>
   list_all (\<lambda>a. \<not> js_isNaN (dateOf sample_host a))
     [[''Activity'' \<mapsto> JStr ''Run'', ''Date'' \<mapsto> JStr ''2024-01-01'', ''Start_Time'' \<mapsto> JStr ''07:00''],
      [''Activity'' \<mapsto> JStr ''Read'', ''Date'' \<mapsto> JStr ''2024-01-02'', ''Start_Time'' \<mapsto> JStr ''10:00''],
      [''Activity'' \<mapsto> JStr ''Swim'', ''Date'' \<mapsto> JStr ''2024-01-02'', ''Start_Time'' \<mapsto> JStr ''09:00'']] \<and>
   sorted_wrt (in_order sample_host)
     (sortActivities sample_host
        [[''Activity'' \<mapsto> JStr ''Run'', ''Date'' \<mapsto> JStr ''2024-01-01'', ''Start_Time'' \<mapsto> JStr ''07:00''],
         [''Activity'' \<mapsto> JStr ''Read'', ''Date'' \<mapsto> JStr ''2024-01-02'', ''Start_Time'' \<mapsto> JStr ''10:00''],
         [''Activity'' \<mapsto> JStr ''Swim'', ''Date'' \<mapsto> JStr ''2024-01-02'', ''Start_Time'' \<mapsto> JStr ''09:00'']]) \<and>
   map (\<lambda>a. get a ''Activity'')
     (sortActivities sample_host
        [[''Activity'' \<mapsto> JStr ''Run'', ''Date'' \<mapsto> JStr ''2024-01-01'', ''Start_Time'' \<mapsto> JStr ''07:00''],
         [''Activity'' \<mapsto> JStr ''Read'', ''Date'' \<mapsto> JStr ''2024-01-02'', ''Start_Time'' \<mapsto> JStr ''10:00''],
         [''Activity'' \<mapsto> JStr ''Swim'', ''Date'' \<mapsto> JStr ''2024-01-02'', ''Start_Time'' \<mapsto> JStr ''09:00'']]) =
     [JStr ''Swim'', JStr ''Read'', JStr ''Run'']"
proof -
  let ?acts = "[[''Activity'' \<mapsto> JStr ''Run'', ''Date'' \<mapsto> JStr ''2024-01-01'', ''Start_Time'' \<mapsto> JStr ''07:00''],
      [''Activity'' \<mapsto> JStr ''Read'', ''Date'' \<mapsto> JStr ''2024-01-02'', ''Start_Time'' \<mapsto> JStr ''10:00''],
      [''Activity'' \<mapsto> JStr ''Swim'', ''Date'' \<mapsto> JStr ''2024-01-02'', ''Start_Time'' \<mapsto> JStr ''09:00'']]"
  have h1: "consistent_collation sample_host"
    by (rule consistent_sample_host)
  have h2: "list_all (\<lambda>a. \<not> js_isNaN (dateOf sample_host a)) ?acts"
    by (simp add: dateOf_def get_def sample_host_def iso_date_examples)
  have s: "sorted_wrt (in_order sample_host) (sortActivities sample_host ?acts)"
    using sortActivities_sorted [OF h1 h2] by (rule conjunct2)
  have v: "map (\<lambda>a. get a ''Activity'') (sortActivities sample_host ?acts) =
      [JStr ''Swim'', JStr ''Read'', JStr ''Run'']"
    by (simp add: sortActivities_def sort_js_def compareActivities_def dateOf_def startOf_def
        get_def sample_host_def iso_date_examples)
  from h1 h2 s v show ?thesis
    by (intro conjI)
qed

text \<open>
  C5 as stated fails where the date cannot be read: the comparator answers NaN, which
  the sort takes as "equal", and the start times are not looked at. Two activities of the
  same day, written \<open>31/12/2024\<close>, stay in their order, 10:00 before 09:00.
\<close>

theorem sortActivities_unparsed_date_counterexample:
  "map (\<lambda>a. get a ''Start_Time'')
     (sortActivities sample_host
        [[''Activity'' \<mapsto> JStr ''Read'', ''Date'' \<mapsto> JStr ''31/12/2024'', ''Start_Time'' \<mapsto> JStr ''10:00''],
         [''Activity'' \<mapsto> JStr ''Swim'', ''Date'' \<mapsto> JStr ''31/12/2024'', ''Start_Time'' \<mapsto> JStr ''09:00'']]) =
     [JStr ''10:00'', JStr ''09:00''] \<and>
   0 < localeCompare sample_host ''10:00'' ''09:00''"
  by (simp add: sortActivities_def sort_js_def compareActivities_def dateOf_def startOf_def
      get_def sample_host_def iso_date_examples)

section \<open>Properties of filteredActivities\<close>


lemma and_then_True [simp]: "and_then (Inr True) rest = rest"
  by (simp add: and_then_def)

lemma and_then_False [simp]: "and_then (Inr False) rest = Inr False"
  by (simp add: and_then_def)

lemma nothing_active_noFilters: "nothing_active noFilters"
  by (simp add: nothing_active_def unselected_def noFilters_def)






lemma filter_js_defined:
  "(\<And>a. a \<in> set xs \<Longrightarrow> \<exists>keep. p a = Inr keep) \<Longrightarrow>
     filter_js p xs = Inr (filter (\<lambda>a. p a = Inr True) xs)"
proof (induction xs)
  case Nil
  then show ?case by simp
next
  case (Cons a xs)
  then obtain keep where "p a = Inr keep"
    by auto
  moreover have "filter_js p xs = Inr (filter (\<lambda>a. p a = Inr True) xs)"
    using Cons by simp
  ultimately show ?case
    by simp
qed

lemma textual_truthy: "textual v \<Longrightarrow> truthy v \<Longrightarrow> \<exists>s. v = JStr s \<and> s \<noteq> []"
  by (cases v) (auto simp: textual_def)

lemma tagsValue_text: "textual (tagsValue a) \<Longrightarrow> \<exists>s. tagsValue a = JStr s"
  by (cases "tagsValue a") (auto simp: textual_def tagsValue_def js_or_def split: if_splits)

lemma notesValue_text: "textual (notesValue a) \<Longrightarrow> \<exists>s. notesValue a = JStr s"
  by (cases "notesValue a") (auto simp: textual_def notesValue_def js_or_def split: if_splits)

lemma searchStep_typed:
  assumes "typed_activity h a" and "truthy (activityName a)" and "truthy (categoryName a)"
  shows "searchStep h q a = Inr (matches_query h q a)"
proof -
  from assms obtain n c where nc: "activityName a = JStr n" "categoryName a = JStr c"
    using textual_truthy unfolding typed_activity_def by blast
  from assms(1) obtain t nt where tn: "tagsValue a = JStr t" "notesValue a = JStr nt"
    using tagsValue_text notesValue_text unfolding typed_activity_def by blast
  show ?thesis
    by (simp add: searchStep_def matches_query_def Let_def nc tn)
qed

lemma categoriesStep_one_of: "categoriesStep F a = one_of (categories F) (categoryName a)"
  by (auto simp: categoriesStep_def one_of_def list_ex_iff split: option.splits)

lemma activitiesStep_one_of: "activitiesStep F a = one_of (activities F) (activityName a)"
  by (auto simp: activitiesStep_def one_of_def list_ex_iff split: option.splits)

lemma tagsStep_typed:
  assumes "typed_activity h a"
  shows "tagsStep h F a = Inr (has_tag h F a)"
proof -
  from assms obtain t where t: "tagsValue a = JStr t"
    using tagsValue_text unfolding typed_activity_def by blast
  show ?thesis
    by (simp add: tagsStep_def has_tag_def tagsOf_def t list_ex_iff split: option.splits)
qed

lemma pointsStep_typed:
  assumes "typed_activity h a"
  shows "pointsStep h F a = has_points h F a"
proof -
  from assms obtain p where p: "toNumber h (pointsValue a) = Fin p"
    unfolding typed_activity_def by (cases "toNumber h (pointsValue a)") auto
  show ?thesis
  proof (cases "minPoints F")
    case None
    then show ?thesis by (simp add: pointsStep_def has_points_def)
  next
    case (Some m)
    then show ?thesis
      by (cases m) (auto simp: pointsStep_def has_points_def p)
  qed
qed

lemma dateStep_date_dimension:
  assumes "dateStep h F a"
  shows "date_dimension h F a"
proof (cases "dateRange F")
  case None
  then show ?thesis by (simp add: date_dimension_def)
next
  case (Some dr)
  show ?thesis
  proof (cases "startDate dr")
    case None
    with Some show ?thesis by (simp add: date_dimension_def)
  next
    case start: (Some s)
    show ?thesis
    proof (cases "s = []")
      case True
      with Some start show ?thesis by (simp add: date_dimension_def)
    next
      case False
      from assms Some start False have has_date: "truthy (dateValue a)"
        and lo: "\<not> js_lt (newDate h (dateValue a)) (parseDate h s)"
        by (auto simp: dateStep_def Let_def split: if_splits)
      have lower: "not_before h a s"
        if "\<not> js_isNaN (newDate h (dateValue a)) \<and> \<not> js_isNaN (parseDate h s)"
      proof -
        from that obtain t t0 where "newDate h (dateValue a) = Fin t" "parseDate h s = Fin t0"
          by (cases "newDate h (dateValue a)"; cases "parseDate h s") auto
        with lo show ?thesis
          by (simp add: not_before_def)
      qed
      have upper: "not_after h a e"
        if e: "endDate dr = Some e" "e \<noteq> []"
          and r: "\<not> js_isNaN (newDate h (dateValue a)) \<and> \<not> js_isNaN (parseDate h e)" for e
      proof -
        from r obtain t t1 where t: "newDate h (dateValue a) = Fin t" "parseDate h e = Fin t1"
          by (cases "newDate h (dateValue a)"; cases "parseDate h e") auto
        from assms Some start False has_date lo e
        have "\<not> js_lt (setEndOfDay h (parseDate h e)) (newDate h (dateValue a))"
          by (simp add: dateStep_def Let_def)
        with t show ?thesis
          by (simp add: not_after_def)
      qed
      show ?thesis
        using Some start has_date lower upper
        by (cases "endDate dr") (auto simp: date_dimension_def)
    qed
  qed
qed

lemma keepActivity_typed:
  assumes "typed_activity h a"
  shows "\<exists>keep. keepActivity h q F a = Inr keep \<and> (keep \<longrightarrow> satisfies_filters h q F a)"
proof (cases "truthy (activityName a) \<and> truthy (categoryName a)")
  case False
  then show ?thesis
    by (auto simp: keepActivity_def)
next
  case True
  then have keep: "keepActivity h q F a =
      Inr (matches_query h q a \<and> one_of (categories F) (categoryName a) \<and>
           one_of (activities F) (activityName a) \<and> dateStep h F a \<and> has_points h F a \<and>
           has_tag h F a)"
    using assms
    by (simp add: keepActivity_def and_then_def searchStep_typed categoriesStep_one_of
        activitiesStep_one_of tagsStep_typed pointsStep_typed)
  show ?thesis
    unfolding keep using True dateStep_date_dimension [of h F a]
    by (auto simp: satisfies_filters_def)
qed

text \<open>
  A field of another type than declared makes the callback throw: with a query set,
  \<open>toLowerCase\<close> is called on the number that stands where the tags should be.
\<close>

lemma filteredActivities_type_error:
  "filteredActivities h
     [[''Activity'' \<mapsto> JStr ''Run'', ''Category'' \<mapsto> JStr ''Sport'', ''Tags'' \<mapsto> JNum (Fin 5)]]
     ''run'' noFilters = Inl TypeError"
  by (simp add: filteredActivities_def keepActivity_def and_then_def searchStep_def
      activityName_def categoryName_def tagsValue_def get_def js_or_def)

text \<open>
  C4 (as amended). For activities whose fields have the declared types, for every text
  query and filter set, the filtered result is a subsequence of the input, and every
  record in it has a name and a category and satisfies every dimension: the query, the
  categories, the activities and the tags (each satisfied by one of the selected values),
  the minimum of points, and the date range. For a date range with a start date, a
  returned record has a date, and for each bound of the range, if the date of the record
  and the bound can both be read as dates, the record is not before the start and not
  after the end of the end day. Nothing is said of a date range without a start date.
\<close>

theorem filteredActivities_sound:
  assumes "list_all (typed_activity h) acts"
  shows "\<exists>res. filteredActivities h acts q F = Inr res \<and> subseq res acts \<and>
           list_all (satisfies_filters h q F) res"
proof -
  let ?kept = "filter (\<lambda>a. keepActivity h q F a = Inr True) acts"
  have typed: "typed_activity h a" if "a \<in> set acts" for a
    using assms that by (simp add: list_all_iff)
  have "filteredActivities h acts q F = Inr ?kept"
    unfolding filteredActivities_def
    using keepActivity_typed [OF typed] by (intro filter_js_defined) blast
  moreover have "subseq ?kept acts"
    by simp
  moreover have "list_all (satisfies_filters h q F) ?kept"
    unfolding list_all_iff
  proof
    fix a assume "a \<in> set ?kept"
    then have "a \<in> set acts" "keepActivity h q F a = Inr True"
      by simp_all
    with keepActivity_typed [OF typed, of a q F] show "satisfies_filters h q F a"
      by auto
  qed
  ultimately show ?thesis
    by blast
qed

lemma ascii_lower_examples:
  "ascii_lower ''RUN'' = ''run''"
  "ascii_lower ''Run'' = ''run''"
  "ascii_lower ''Sport'' = ''sport''"
  "ascii_lower ''cardio, outdoor'' = ''cardio, outdoor''"
  "ascii_lower ''Morning run'' = ''morning run''"
  by code_simp+

theorem filteredActivities_sound_witness:
  "list_all (typed_activity sample_host)
     [[''Activity'' \<mapsto> JStr ''Run'', ''Category'' \<mapsto> JStr ''Sport'',
       ''Date'' \<mapsto> JStr ''2024-01-15'', ''Tags'' \<mapsto> JStr ''cardio, outdoor'',
       ''Notes'' \<mapsto> JStr ''Morning run'', ''Points'' \<mapsto> JNum (Fin 10)],
      [''activity'' \<mapsto> JStr ''Read'', ''category'' \<mapsto> JStr ''Leisure'',
       ''date'' \<mapsto> JStr ''2024-06-01'', ''points'' \<mapsto> JNum (Fin 5)]] \<and>
   (\<exists>res. filteredActivities sample_host
        [[''Activity'' \<mapsto> JStr ''Run'', ''Category'' \<mapsto> JStr ''Sport'',
       ''Date'' \<mapsto> JStr ''2024-01-15'', ''Tags'' \<mapsto> JStr ''cardio, outdoor'',
       ''Notes'' \<mapsto> JStr ''Morning run'', ''Points'' \<mapsto> JNum (Fin 10)],
         [''activity'' \<mapsto> JStr ''Read'', ''category'' \<mapsto> JStr ''Leisure'',
       ''date'' \<mapsto> JStr ''2024-06-01'', ''points'' \<mapsto> JNum (Fin 5)]]
        ''RUN''
        \<lparr>categories = Some [''Sport''], activities = None, tags = Some [''outdoor''],
      dateRange = Some \<lparr>startDate = Some ''2024-01-01'', endDate = Some ''2024-01-31''\<rparr>,
      minPoints = Some (Fin 5)\<rparr> = Inr res \<and>
      subseq res
        [[''Activity'' \<mapsto> JStr ''Run'', ''Category'' \<mapsto> JStr ''Sport'',
       ''Date'' \<mapsto> JStr ''2024-01-15'', ''Tags'' \<mapsto> JStr ''cardio, outdoor'',
       ''Notes'' \<mapsto> JStr ''Morning run'', ''Points'' \<mapsto> JNum (Fin 10)],
         [''activity'' \<mapsto> JStr ''Read'', ''category'' \<mapsto> JStr ''Leisure'',
       ''date'' \<mapsto> JStr ''2024-06-01'', ''points'' \<mapsto> JNum (Fin 5)]] \<and>
      list_all (satisfies_filters sample_host ''RUN''
        \<lparr>categories = Some [''Sport''], activities = None, tags = Some [''outdoor''],
      dateRange = Some \<lparr>startDate = Some ''2024-01-01'', endDate = Some ''2024-01-31''\<rparr>,
      minPoints = Some (Fin 5)\<rparr>) res) \<and>
   filteredActivities sample_host
     [[''Activity'' \<mapsto> JStr ''Run'', ''Category'' \<mapsto> JStr ''Sport'',
       ''Date'' \<mapsto> JStr ''2024-01-15'', ''Tags'' \<mapsto> JStr ''cardio, outdoor'',
       ''Notes'' \<mapsto> JStr ''Morning run'', ''Points'' \<mapsto> JNum (Fin 10)],
      [''activity'' \<mapsto> JStr ''Read'', ''category'' \<mapsto> JStr ''Leisure'',
       ''date'' \<mapsto> JStr ''2024-06-01'', ''points'' \<mapsto> JNum (Fin 5)]]
     ''RUN''
     \<lparr>categories = Some [''Sport''], activities = None, tags = Some [''outdoor''],
      dateRange = Some \<lparr>startDate = Some ''2024-01-01'', endDate = Some ''2024-01-31''\<rparr>,
      minPoints = Some (Fin 5)\<rparr> =
   Inr [[''Activity'' \<mapsto> JStr ''Run'', ''Category'' \<mapsto> JStr ''Sport'',
       ''Date'' \<mapsto> JStr ''2024-01-15'', ''Tags'' \<mapsto> JStr ''cardio, outdoor'',
       ''Notes'' \<mapsto> JStr ''Morning run'', ''Points'' \<mapsto> JNum (Fin 10)]]"
proof -
  let ?acts = "[[''Activity'' \<mapsto> JStr ''Run'', ''Category'' \<mapsto> JStr ''Sport'',
       ''Date'' \<mapsto> JStr ''2024-01-15'', ''Tags'' \<mapsto> JStr ''cardio, outdoor'',
       ''Notes'' \<mapsto> JStr ''Morning run'', ''Points'' \<mapsto> JNum (Fin 10)],
      [''activity'' \<mapsto> JStr ''Read'', ''category'' \<mapsto> JStr ''Leisure'',
       ''date'' \<mapsto> JStr ''2024-06-01'', ''points'' \<mapsto> JNum (Fin 5)]]"
  let ?F = "\<lparr>categories = Some [''Sport''], activities = None, tags = Some [''outdoor''],
      dateRange = Some \<lparr>startDate = Some ''2024-01-01'', endDate = Some ''2024-01-31''\<rparr>,
      minPoints = Some (Fin 5)\<rparr>"
  have h: "list_all (typed_activity sample_host) ?acts"
    by (simp add: typed_activity_def textual_def activityName_def categoryName_def tagsValue_def
        notesValue_def pointsValue_def get_def js_or_def)
  have r: "\<exists>res. filteredActivities sample_host ?acts ''RUN'' ?F = Inr res \<and> subseq res ?acts \<and>
      list_all (satisfies_filters sample_host ''RUN'' ?F) res"
    using h by (rule filteredActivities_sound)
  have v: "filteredActivities sample_host ?acts ''RUN'' ?F =
      Inr [[''Activity'' \<mapsto> JStr ''Run'', ''Category'' \<mapsto> JStr ''Sport'',
       ''Date'' \<mapsto> JStr ''2024-01-15'', ''Tags'' \<mapsto> JStr ''cardio, outdoor'',
       ''Notes'' \<mapsto> JStr ''Morning run'', ''Points'' \<mapsto> JNum (Fin 10)]]"
    by (simp add: filteredActivities_def keepActivity_def and_then_def searchStep_def
        categoriesStep_def activitiesStep_def dateStep_def pointsStep_def tagsStep_def
        activityName_def categoryName_def tagsValue_def notesValue_def dateValue_def
        pointsValue_def get_def js_or_def sample_host_def ascii_lower_examples ascii_trim_def
        whitespace_def utc_end_of_day_def iso_date_examples Let_def)
  from h r v show ?thesis
    by (intro conjI)
qed

text \<open>
  C4 as stated fails in the date dimension wherever a date cannot be read, since every
  comparison with an invalid date is false and no date is validated: a record whose date
  is written \<open>31/12/2024\<close> passes the range of January 2024; a record of 2024-06-01 passes
  a range whose end is written \<open>31/01/2024\<close>; a record of 2024-01-01 passes a range
  whose start is written \<open>15/01/2024\<close>.
\<close>

theorem filteredActivities_dateRange_counterexample:
  "filteredActivities sample_host
     [[''Activity'' \<mapsto> JStr ''Swim'', ''Category'' \<mapsto> JStr ''Sport'',
       ''Date'' \<mapsto> JStr ''31/12/2024'']] []
     \<lparr>categories = None, activities = None, tags = None,
      dateRange = Some \<lparr>startDate = Some ''2024-01-01'', endDate = Some ''2024-01-31''\<rparr>,
      minPoints = None\<rparr> =
   Inr [[''Activity'' \<mapsto> JStr ''Swim'', ''Category'' \<mapsto> JStr ''Sport'',
       ''Date'' \<mapsto> JStr ''31/12/2024'']] \<and>
   \<not> within_dateRange sample_host
     \<lparr>categories = None, activities = None, tags = None,
      dateRange = Some \<lparr>startDate = Some ''2024-01-01'', endDate = Some ''2024-01-31''\<rparr>,
      minPoints = None\<rparr>
     [''Activity'' \<mapsto> JStr ''Swim'', ''Category'' \<mapsto> JStr ''Sport'',
       ''Date'' \<mapsto> JStr ''31/12/2024''] \<and>
   filteredActivities sample_host
     [[''Activity'' \<mapsto> JStr ''Read'', ''Category'' \<mapsto> JStr ''Leisure'',
       ''Date'' \<mapsto> JStr ''2024-06-01'']] []
     \<lparr>categories = None, activities = None, tags = None,
      dateRange = Some \<lparr>startDate = Some ''2024-01-01'', endDate = Some ''31/01/2024''\<rparr>,
      minPoints = None\<rparr> =
   Inr [[''Activity'' \<mapsto> JStr ''Read'', ''Category'' \<mapsto> JStr ''Leisure'',
       ''Date'' \<mapsto> JStr ''2024-06-01'']] \<and>
   \<not> within_dateRange sample_host
     \<lparr>categories = None, activities = None, tags = None,
      dateRange = Some \<lparr>startDate = Some ''2024-01-01'', endDate = Some ''31/01/2024''\<rparr>,
      minPoints = None\<rparr>
     [''Activity'' \<mapsto> JStr ''Read'', ''Category'' \<mapsto> JStr ''Leisure'',
       ''Date'' \<mapsto> JStr ''2024-06-01''] \<and>
   filteredActivities sample_host
     [[''Activity'' \<mapsto> JStr ''Run'', ''Category'' \<mapsto> JStr ''Sport'',
       ''Date'' \<mapsto> JStr ''2024-01-01'']] []
     \<lparr>categories = None, activities = None, tags = None,
      dateRange = Some \<lparr>startDate = Some ''15/01/2024'', endDate = Some ''2024-01-31''\<rparr>,
      minPoints = None\<rparr> =
   Inr [[''Activity'' \<mapsto> JStr ''Run'', ''Category'' \<mapsto> JStr ''Sport'',
       ''Date'' \<mapsto> JStr ''2024-01-01'']] \<and>
   \<not> within_dateRange sample_host
     \<lparr>categories = None, activities = None, tags = None,
      dateRange = Some \<lparr>startDate = Some ''15/01/2024'', endDate = Some ''2024-01-31''\<rparr>,
      minPoints = None\<rparr>
     [''Activity'' \<mapsto> JStr ''Run'', ''Category'' \<mapsto> JStr ''Sport'',
       ''Date'' \<mapsto> JStr ''2024-01-01'']"
  by (simp add: filteredActivities_def keepActivity_def and_then_def searchStep_def
      categoriesStep_def activitiesStep_def dateStep_def pointsStep_def tagsStep_def
      activityName_def categoryName_def dateValue_def get_def js_or_def sample_host_def
      within_dateRange_def in_dateRange_def not_before_def not_after_def
      iso_date_examples utc_end_of_day_def)

text \<open>
  A range that has an end date only filters nothing, although the comment of the
  callback reads "Check end date if provided": the test of the end date stands inside the
  test of the start date. The property above leaves this case open.
\<close>

lemma filteredActivities_end_only_range:
  "filteredActivities sample_host
     [[''Activity'' \<mapsto> JStr ''Read'', ''Category'' \<mapsto> JStr ''Leisure'',
       ''Date'' \<mapsto> JStr ''2024-06-01'']] []
     \<lparr>categories = None, activities = None, tags = None,
      dateRange = Some \<lparr>startDate = None, endDate = Some ''2024-01-31''\<rparr>, minPoints = None\<rparr> =
   Inr [[''Activity'' \<mapsto> JStr ''Read'', ''Category'' \<mapsto> JStr ''Leisure'',
       ''Date'' \<mapsto> JStr ''2024-06-01'']]"
  by (simp add: filteredActivities_def keepActivity_def and_then_def searchStep_def
      categoriesStep_def activitiesStep_def dateStep_def pointsStep_def tagsStep_def
      activityName_def categoryName_def dateValue_def get_def js_or_def)

section \<open>Properties of the chart data preparers\<close>

text \<open>
  \<open>prepareMoodData\<close> and \<open>prepareSleepHoursData\<close> chart exactly the records whose field
  is neither \<open>undefined\<close> nor \<open>null\<close> nor not a number, one point for each and nothing
  in between.
\<close>

lemma prepareMoodData_alt:
  "prepareMoodData h logs property =
     map (\<lambda>log. \<lparr>point_x = get log ''date'',
                   point_y = (if js_isNaN (toNumber h (get log property)) then Fin 0
                              else toNumber h (get log property)),
                   point_date = formatDate h (get log ''date'')\<rparr>)
       (sort_js (compareLogDates h) (filter (valid_field h property) logs))"
  unfolding prepareMoodData_def Let_def valid_field_def
  by (cases logs) (simp_all add: sort_js_def)

lemma prepareMoodData_map:
  "prepareMoodData h logs property =
     map (point_of h property)
       (sort_js (compareLogDates h) (filter (valid_field h property) logs))"
  unfolding prepareMoodData_alt
proof (rule map_cong [OF refl])
  fix log
  assume "log \<in> set (sort_js (compareLogDates h) (filter (valid_field h property) logs))"
  then have "valid_field h property log"
    by (simp add: set_sort_js)
  then have "\<not> js_isNaN (toNumber h (get log property))"
    by (simp add: valid_field_def)
  then show "\<lparr>point_x = get log ''date'',
        point_y = (if js_isNaN (toNumber h (get log property)) then Fin 0
                   else toNumber h (get log property)),
        point_date = formatDate h (get log ''date'')\<rparr> = point_of h property log"
    by (simp add: point_of_def)
qed

lemma prepareMoodData_points:
  "mset (prepareMoodData h logs property) =
     image_mset (point_of h property) (filter_mset (valid_field h property) (mset logs))"
  by (simp add: prepareMoodData_map mset_sort_js)

lemma prepareSleepHoursData_eq:
  "prepareSleepHoursData h logs = prepareMoodData h logs ''sleep_hours''"
  by (simp add: prepareSleepHoursData_def prepareMoodData_def)

lemma prepareMoodData_excludes:
  assumes "p \<in> set (prepareMoodData h logs property)"
  shows "\<exists>log\<in>set logs. p = point_of h property log \<and> get log property \<noteq> JUndefined \<and>
           get log property \<noteq> JNull \<and> \<not> js_isNaN (toNumber h (get log property))"
  using assms by (auto simp: prepareMoodData_map set_sort_js valid_field_def)

text \<open>
  C7. The claim is that the chart data preparers leave out every record whose numeric
  field is missing, \<open>undefined\<close>, \<open>null\<close> or not a number. \<open>prepareSleepMoodData\<close>
  tests \<open>sleep_hours\<close> and \<open>mood_score\<close> against \<open>undefined\<close> only, and \<open>Number(null)\<close> is 0:
  a mood log whose \<open>sleep_hours\<close> is \<open>null\<close> is not left out but charted at 0 hours.
\<close>

theorem prepareSleepMoodData_null_sleep_hours:
  "prepareSleepMoodData h
     [[''date'' \<mapsto> JStr ''2024-01-31'', ''mood_score'' \<mapsto> JNum (Fin 7),
       ''sleep_hours'' \<mapsto> JNull]] =
   [\<lparr>point_x = JNum (Fin 0), point_y = Fin 7, point_date = formatDate h (JStr ''2024-01-31'')\<rparr>]"
  by (simp add: prepareSleepMoodData_def get_def)

end
